theory Spec2Isabelle
  imports Main "HOL-Library.Sublist"
begin

section \<open>Constants of the service module\<close>

text \<open>
  The module \<^verbatim>\<open>api/service/elk.py\<close> reads five constants from \<^verbatim>\<open>api.utils.const\<close>,
  which is not among the sources. They are parameters of the model: every function below
  takes the configuration \<open>cfg\<close>. \<open>SPECIAL_CHARS\<close> is whatever the loop
  \<^verbatim>\<open>for char in SPECIAL_CHARS\<close> iterates over: a list of strings (a Python \<^verbatim>\<open>str\<close>
  iterates as its one-character strings).
\<close>

record config =
  RECORDS :: int
  SPECIAL_CHARS :: "string list"
  REQUEST_TIMEOUT :: int
  INDEX_NAME_PREFIX :: string
  MAX_IDX_LIM :: int

text \<open>
  Modelled from the spec: the status constants of \<^verbatim>\<open>api.utils.status\<close>, a module that is
  not among the sources. The spec names the outcomes (success, bad-request, not-found,
  method-not-allowed, request-timeout, already-reported, not-acceptable) and each constant
  carries its HTTP code in its name; the source itself mixes them with the literals
  \<^verbatim>\<open>200\<close>, \<^verbatim>\<open>404\<close> and \<^verbatim>\<open>405\<close>.
\<close>

definition HTTP_200_OK :: int where
  "HTTP_200_OK = 200"

definition HTTP_208_ALREADY_REPORTED :: int where
  "HTTP_208_ALREADY_REPORTED = 208"

definition HTTP_400_BAD_REQUEST :: int where
  "HTTP_400_BAD_REQUEST = 400"

definition HTTP_404_NOT_FOUND :: int where
  "HTTP_404_NOT_FOUND = 404"

definition HTTP_405_METHOD_NOT_ALLOWED :: int where
  "HTTP_405_METHOD_NOT_ALLOWED = 405"

definition HTTP_406_NOT_ACCEPTABLE :: int where
  "HTTP_406_NOT_ACCEPTABLE = 406"

definition HTTP_408_REQUEST_TIMEOUT :: int where
  "HTTP_408_REQUEST_TIMEOUT = 408"

section \<open>Data\<close>

text \<open>
  A document is a Python dict from field names to values; the value type \<open>'v\<close> is left
  open. \<^verbatim>\<open>d.get(k)\<close> is \<open>map_of d k\<close>, with \<open>None\<close> for Python's \<^verbatim>\<open>None\<close>.
  A hit of a search response is the dict whose \<^verbatim>\<open>"_source"\<close> entry is the document.
\<close>

type_synonym 'v document = "(string \<times> 'v) list"

record 'v hit =
  hit_id :: string
  hit_source :: "'v document"

text \<open>The three query bodies the module builds.\<close>

datatype query =
    Match string string
  | Range string string string
  | Query_string string

text \<open>
  The keyword arguments of \<^verbatim>\<open>_es.search\<close>: \<^verbatim>\<open>body={"query": q}\<close>, \<^verbatim>\<open>query=q\<close>,
  \<^verbatim>\<open>size\<close> and \<^verbatim>\<open>request_timeout\<close>; \<open>None\<close> is an argument that is not passed.
\<close>

record search_args =
  arg_index :: string
  arg_body :: "query option"
  arg_query :: "query option"
  arg_size :: "int option"
  arg_request_timeout :: "int option"

text \<open>
  What a call into the client may raise: \<^verbatim>\<open>elastic_transport.ConnectionTimeout\<close>, or any
  other subclass of \<^verbatim>\<open>Exception\<close>. The string is the exception's description.
\<close>

datatype exn = ConnectionTimeout string | OtherException string

text \<open>What a function of the module returns: the envelope, or raw search data.\<close>

datatype 'v response =
    Envelope string int
  | Document "'v document"
  | Documents "'v document list"
  | Field_values "'v option list"

section \<open>The engine client and the trace of calls\<close>

text \<open>
  The client \<^verbatim>\<open>_es\<close>, the bulk helper and \<^verbatim>\<open>open\<close> are external. Each is a function on
  the state \<open>'s\<close> of the outside world (cluster and file system) that returns a value or
  raises. \<^verbatim>\<open>csv.DictReader\<close> is lazy, so the rows are parsed while the bulk helper
  consumes them: the helper takes the lines of the opened file.
\<close>

record ('s, 'v) engine =
  cat_indices :: "string \<Rightarrow> string \<Rightarrow> string \<Rightarrow> 's \<Rightarrow> (exn + string) \<times> 's"
  indices_exists :: "string \<Rightarrow> 's \<Rightarrow> (exn + bool) \<times> 's"
  indices_create :: "string \<Rightarrow> string \<Rightarrow> int \<Rightarrow> 's \<Rightarrow> (exn + unit) \<times> 's"
  indices_delete :: "string \<Rightarrow> 's \<Rightarrow> (exn + unit) \<times> 's"
  index_doc :: "string \<Rightarrow> 'v document \<Rightarrow> string \<Rightarrow> bool \<Rightarrow> string \<Rightarrow> 's \<Rightarrow> (exn + unit) \<times> 's"
  search :: "search_args \<Rightarrow> 's \<Rightarrow> (exn + 'v hit list) \<times> 's"
  open_file :: "string \<Rightarrow> 's \<Rightarrow> (exn + string list) \<times> 's"
  helpers_bulk :: "string list \<Rightarrow> string \<Rightarrow> 's \<Rightarrow> (exn + unit) \<times> 's"

text \<open>Every call that leaves the module is recorded, with its arguments, in order.\<close>

datatype 'v es_call =
    Cat_indices string string string
  | Indices_exists string
  | Indices_create string string int
  | Indices_delete string
  | Index_doc string "'v document" string bool string
  | Search search_args
  | Open_file string
  | Bulk "string list" string

record ('s, 'v) world =
  es_state :: 's
  calls :: "'v es_call list"
  printed :: "exn list"

type_synonym ('s, 'v, 'a) action = "('s, 'v) world \<Rightarrow> (exn + 'a) \<times> ('s, 'v) world"

definition perform :: "'v es_call \<Rightarrow> ('s \<Rightarrow> (exn + 'a) \<times> 's) \<Rightarrow> ('s, 'v, 'a) action" where
  "perform c f w =
     (case f (es_state w) of
        (r, s') \<Rightarrow> (r, w\<lparr>es_state := s', calls := calls w @ [c]\<rparr>))"

text \<open>
  The \<^verbatim>\<open>print\<close> in each handler. Its text holds the file name and line number of the
  frame; the model records the exception that is printed.
\<close>

definition log_error :: "exn \<Rightarrow> ('s, 'v) world \<Rightarrow> ('s, 'v) world" where
  "log_error ex w = w\<lparr>printed := printed w @ [ex]\<rparr>"

section \<open>Strings\<close>

text \<open>
  Python strings are lists of characters; \<^verbatim>\<open>a in b\<close> on strings is \<open>sublist a b\<close> and
  \<^verbatim>\<open>b.startswith(a)\<close> is \<open>prefix a b\<close>. \<^verbatim>\<open>str.split()\<close> cuts at runs of whitespace;
  characters are code points below 256, where Python's whitespace is the set below.
\<close>

definition py_isspace :: "char \<Rightarrow> bool" where
  "py_isspace c = (of_char c \<in> {9, 10, 11, 12, 13, 28, 29, 30, 31, 32, 133, 160 :: nat})"

fun split_from :: "string \<Rightarrow> string \<Rightarrow> string list" where
  "split_from cur [] = (if cur = [] then [] else [cur])"
| "split_from cur (c # cs) =
     (if py_isspace c
      then (if cur = [] then split_from [] cs else cur # split_from [] cs)
      else split_from (cur @ [c]) cs)"

definition py_split :: "string \<Rightarrow> string list" where
  "py_split s = split_from [] s"

fun str_nat :: "nat \<Rightarrow> string" where
  "str_nat n =
     (if n < 10 then [''0123456789'' ! n]
      else str_nat (n div 10) @ [''0123456789'' ! (n mod 10)])"

declare str_nat.simps [simp del]

definition py_str :: "int \<Rightarrow> string" where
  "py_str i = (if i < 0 then ''-'' @ str_nat (nat (- i)) else str_nat (nat i))"

section \<open>The name check and the prefix rule\<close>

text \<open>
  Every operation starts with the same two steps, written out in each function of the
  source: the loop over \<^verbatim>\<open>SPECIAL_CHARS\<close> that clears the flag \<^verbatim>\<open>allowed\<close>, and the
  \<^verbatim>\<open>startswith\<close> test that prepends \<^verbatim>\<open>INDEX_NAME_PREFIX\<close>.
\<close>

definition name_allowed :: "config \<Rightarrow> string \<Rightarrow> bool" where
  "name_allowed cfg idx =
     fold (\<lambda>char allowed. if sublist char idx then False else allowed) (SPECIAL_CHARS cfg) True"

definition normalize_index :: "config \<Rightarrow> string \<Rightarrow> string" where
  "normalize_index cfg idx =
     (if \<not> prefix (INDEX_NAME_PREFIX cfg) idx then INDEX_NAME_PREFIX cfg @ idx else idx)"

section \<open>Counting and creating indices\<close>

definition no_of_tdp_idx :: "config \<Rightarrow> ('s, 'v) engine \<Rightarrow> ('s, 'v, int) action" where
  "no_of_tdp_idx cfg E w =
     (case perform (Cat_indices (INDEX_NAME_PREFIX cfg @ ''*'') ''index'' ''index:desc'')
             (cat_indices E (INDEX_NAME_PREFIX cfg @ ''*'') ''index'' ''index:desc'') w of
        (Inl ex, w1) \<Rightarrow> (Inl ex, w1)
      | (Inr txt, w1) \<Rightarrow> (Inr (int (length (py_split txt))), w1))"

definition limit_message :: "config \<Rightarrow> string" where
  "limit_message cfg =
     ''Maximum limit(='' @ py_str (MAX_IDX_LIM cfg) @ '') of indices has already been reached,''
       @ '' not allowed to create anymore indices unless you delete some''"

definition special_chars_message :: "string \<Rightarrow> string" where
  "special_chars_message tail =
     ''IndexName must not contain any special chars other than'' @ '' '_' or '-', '' @ tail"

definition quoted :: "string \<Rightarrow> string" where
  "quoted s = [CHR 0x27] @ s @ [CHR 0x27]"

definition create_a_single_index ::
  "config \<Rightarrow> ('s, 'v) engine \<Rightarrow> string \<Rightarrow> ('s, 'v, 'v response) action" where
  "create_a_single_index cfg E idx w =
     (case no_of_tdp_idx cfg E w of
        (Inl ex, w1) \<Rightarrow> (Inl ex, w1)
      | (Inr n, w1) \<Rightarrow>
          if n \<ge> MAX_IDX_LIM cfg
          then (Inr (Envelope (limit_message cfg) HTTP_406_NOT_ACCEPTABLE), w1)
          else if \<not> name_allowed cfg idx
          then (Inr (Envelope
                  (special_chars_message (''index '' @ quoted idx @ '' couldn't be created''))
                  HTTP_405_METHOD_NOT_ALLOWED), w1)
          else
            (let idx' = normalize_index cfg idx in
             case perform (Indices_exists idx') (indices_exists E idx') w1 of
               (Inl ex, w2) \<Rightarrow> (Inl ex, w2)
             | (Inr found, w2) \<Rightarrow>
                 if \<not> found
                 then
                   (case perform (Indices_create idx' ''1'' 0)
                           (indices_create E idx' ''1'' 0) w2 of
                      (Inr u, w3) \<Rightarrow>
                        (Inr (Envelope (''Successfully created index: '' @ idx') HTTP_200_OK), w3)
                    | (Inl ex, w3) \<Rightarrow>
                        (Inr (Envelope (''Failed to create index: '' @ idx') HTTP_404_NOT_FOUND),
                         log_error ex w3))
                 else
                   (Inr (Envelope (''Not created, index '' @ quoted idx' @ '' already exists'')
                           HTTP_208_ALREADY_REPORTED), w2)))"

section \<open>Deleting an index\<close>

definition delete_a_single_index ::
  "config \<Rightarrow> ('s, 'v) engine \<Rightarrow> string \<Rightarrow> ('s, 'v, 'v response) action" where
  "delete_a_single_index cfg E idx w =
     (if \<not> name_allowed cfg idx
      then (Inr (Envelope
              (special_chars_message (''index '' @ quoted idx @ '' couldn't be deleted''))
              405), w)
      else
        (let idx' = normalize_index cfg idx in
         case perform (Indices_exists idx') (indices_exists E idx') w of
           (Inl ex, w1) \<Rightarrow> (Inl ex, w1)
         | (Inr found, w1) \<Rightarrow>
             if found
             then
               (case perform (Indices_delete idx') (indices_delete E idx') w1 of
                  (Inr u, w2) \<Rightarrow>
                    (Inr (Envelope (''Successfully deleted index: '' @ idx') 200), w2)
                | (Inl ex, w2) \<Rightarrow>
                    (Inr (Envelope (''Failed to delete index: '' @ idx') 404), log_error ex w2))
             else
               (Inr (Envelope
                       (''Index '' @ quoted idx' @ '' does not exist, nothing to delete'')
                       HTTP_400_BAD_REQUEST), w1)))"

section \<open>Inserting documents\<close>

definition insert_a_single_doc ::
  "config \<Rightarrow> ('s, 'v) engine \<Rightarrow> string \<Rightarrow> string \<Rightarrow> 'v document \<Rightarrow> ('s, 'v, 'v response) action"
  where
  "insert_a_single_doc cfg E idx doc_id doc w =
     (if \<not> name_allowed cfg idx
      then (Inr (Envelope
              (special_chars_message (''index '' @ quoted idx @ '' couldn't index any record''))
              405), w)
      else
        (let idx' = normalize_index cfg idx in
         case perform (Indices_exists idx') (indices_exists E idx') w of
           (Inl ex, w1) \<Rightarrow> (Inl ex, w1)
         | (Inr found, w1) \<Rightarrow>
             if found
             then
               (case perform (Index_doc idx' doc doc_id True ''30s'')
                       (index_doc E idx' doc doc_id True ''30s'') w1 of
                  (Inr u, w2) \<Rightarrow>
                    (Inr (Envelope (''Record successfully loaded into index '' @ quoted idx')
                            200), w2)
                | (Inl ex, w2) \<Rightarrow>
                    (Inr (Envelope (''Failed to load record into index '' @ quoted idx') 404),
                     log_error ex w2))
             else
               (Inr (Envelope
                       ([CHR 0x27] @ idx'
                          @ '' doesn't exist, create this index to insert records'' @ [CHR 0x27])
                       HTTP_400_BAD_REQUEST), w1)))"

text \<open>
  The bulk load. The envelope that \<^verbatim>\<open>create_a_single_index\<close> returns is dropped; an
  exception it raises is not caught. \<^verbatim>\<open>open\<close> stands outside the \<^verbatim>\<open>try\<close>, the bulk
  helper inside it.
\<close>

definition insert_multiple_docs_from_csv ::
  "config \<Rightarrow> ('s, 'v) engine \<Rightarrow> string \<Rightarrow> string \<Rightarrow> ('s, 'v, 'v response) action" where
  "insert_multiple_docs_from_csv cfg E idx filename w =
     (if \<not> name_allowed cfg idx
      then (Inr (Envelope
              (special_chars_message (''index '' @ quoted idx @ '' couldn't index any record''))
              405), w)
      else
        (let idx' = normalize_index cfg idx in
         case perform (Indices_exists idx') (indices_exists E idx') w of
           (Inl ex, w1) \<Rightarrow> (Inl ex, w1)
         | (Inr found, w1) \<Rightarrow>
             (case (if \<not> found
                    then (case create_a_single_index cfg E idx' w1 of
                            (Inl ex, w2) \<Rightarrow> (Inl ex, w2)
                          | (Inr envelope, w2) \<Rightarrow> (Inr (), w2))
                    else (Inr (), w1)) of
                (Inl ex, w2) \<Rightarrow> (Inl ex, w2)
              | (Inr u, w2) \<Rightarrow>
                  (case perform (Open_file filename) (open_file E filename) w2 of
                     (Inl ex, w3) \<Rightarrow> (Inl ex, w3)
                   | (Inr rows, w3) \<Rightarrow>
                       (case perform (Bulk rows idx') (helpers_bulk E rows idx') w3 of
                          (Inr u', w4) \<Rightarrow>
                            (Inr (Envelope
                                    (''Records successfully loaded into index '' @ quoted idx')
                                    200), w4)
                        | (Inl ex, w4) \<Rightarrow>
                            (Inr (Envelope
                                    (''Failed to load records into index '' @ quoted idx')
                                    404), log_error ex w4))))))"

section \<open>Searching\<close>

text \<open>
  In the search functions only \<^verbatim>\<open>ConnectionTimeout\<close> is caught; any other exception of
  the search call leaves the function. The message of the \<open>405\<close> envelope and of the
  missing index is the same in all seven.
\<close>

definition search_name_message :: "string \<Rightarrow> string" where
  "search_name_message idx =
     special_chars_message (''couldn't find any record from index '' @ quoted idx)"

definition index_missing_message :: "string \<Rightarrow> string" where
  "index_missing_message idx' = ''Index '' @ quoted idx' @ '' doesn't exist''"

definition search_record_from_index_by_given_id ::
  "config \<Rightarrow> ('s, 'v) engine \<Rightarrow> string \<Rightarrow> string \<Rightarrow> ('s, 'v, 'v response) action" where
  "search_record_from_index_by_given_id cfg E idx doc_id w =
     (if \<not> name_allowed cfg idx
      then (Inr (Envelope (search_name_message idx) HTTP_405_METHOD_NOT_ALLOWED), w)
      else
        (let idx' = normalize_index cfg idx in
         case perform (Indices_exists idx') (indices_exists E idx') w of
           (Inl ex, w1) \<Rightarrow> (Inl ex, w1)
         | (Inr found, w1) \<Rightarrow>
             if found
             then
               (let args = \<lparr>arg_index = idx', arg_body = Some (Match ''_id'' doc_id),
                            arg_query = None, arg_size = None,
                            arg_request_timeout = Some (REQUEST_TIMEOUT cfg)\<rparr> in
                case perform (Search args) (search E args) w1 of
                  (Inl (ConnectionTimeout d), w2) \<Rightarrow>
                    (Inr (Envelope ''Request timed out'' HTTP_408_REQUEST_TIMEOUT),
                     log_error (ConnectionTimeout d) w2)
                | (Inl (OtherException d), w2) \<Rightarrow> (Inl (OtherException d), w2)
                | (Inr hits, w2) \<Rightarrow>
                    (case hits of
                       [] \<Rightarrow>
                         (Inr (Envelope
                                 (''No record with id='' @ doc_id @ '' exists in index ''
                                    @ quoted idx')
                                 HTTP_404_NOT_FOUND), w2)
                     | h # rest \<Rightarrow> (Inr (Document (hit_source h)), w2)))
             else (Inr (Envelope (index_missing_message idx') HTTP_404_NOT_FOUND), w1)))"

definition search_records_from_index_by_given_key_and_value ::
  "config \<Rightarrow> ('s, 'v) engine \<Rightarrow> string \<Rightarrow> string \<Rightarrow> string \<Rightarrow> ('s, 'v, 'v response) action"
  where
  "search_records_from_index_by_given_key_and_value cfg E idx key val w =
     (if \<not> name_allowed cfg idx
      then (Inr (Envelope (search_name_message idx) HTTP_405_METHOD_NOT_ALLOWED), w)
      else
        (let idx' = normalize_index cfg idx in
         case perform (Indices_exists idx') (indices_exists E idx') w of
           (Inl ex, w1) \<Rightarrow> (Inl ex, w1)
         | (Inr found, w1) \<Rightarrow>
             if found
             then
               (let args = \<lparr>arg_index = idx', arg_body = None,
                            arg_query = Some (Match key val), arg_size = Some (RECORDS cfg),
                            arg_request_timeout = Some (REQUEST_TIMEOUT cfg)\<rparr> in
                case perform (Search args) (search E args) w1 of
                  (Inl (ConnectionTimeout d), w2) \<Rightarrow>
                    (Inr (Envelope ''Request timed out'' HTTP_408_REQUEST_TIMEOUT),
                     log_error (ConnectionTimeout d) w2)
                | (Inl (OtherException d), w2) \<Rightarrow> (Inl (OtherException d), w2)
                | (Inr hits, w2) \<Rightarrow>
                    (let record_list = map hit_source hits in
                     case hits of
                       [] \<Rightarrow>
                         (Inr (Envelope
                                 (''No record with key='' @ quoted key @ '' and value=''
                                    @ quoted val @ '' exists in index '' @ quoted idx')
                                 HTTP_404_NOT_FOUND), w2)
                     | h # rest \<Rightarrow> (Inr (Documents record_list), w2)))
             else (Inr (Envelope (index_missing_message idx') HTTP_404_NOT_FOUND), w1)))"

definition search_field_from_index_by_given_key_and_value ::
  "config \<Rightarrow> ('s, 'v) engine \<Rightarrow> string \<Rightarrow> string \<Rightarrow> string \<Rightarrow> string
     \<Rightarrow> ('s, 'v, 'v response) action" where
  "search_field_from_index_by_given_key_and_value cfg E idx field key val w =
     (if \<not> name_allowed cfg idx
      then (Inr (Envelope (search_name_message idx) HTTP_405_METHOD_NOT_ALLOWED), w)
      else
        (let idx' = normalize_index cfg idx in
         case perform (Indices_exists idx') (indices_exists E idx') w of
           (Inl ex, w1) \<Rightarrow> (Inl ex, w1)
         | (Inr found, w1) \<Rightarrow>
             if found
             then
               (let args = \<lparr>arg_index = idx', arg_body = None,
                            arg_query = Some (Match key val), arg_size = Some (RECORDS cfg),
                            arg_request_timeout = Some (REQUEST_TIMEOUT cfg)\<rparr> in
                case perform (Search args) (search E args) w1 of
                  (Inl (ConnectionTimeout d), w2) \<Rightarrow>
                    (Inr (Envelope ''Request timed out'' HTTP_408_REQUEST_TIMEOUT),
                     log_error (ConnectionTimeout d) w2)
                | (Inl (OtherException d), w2) \<Rightarrow> (Inl (OtherException d), w2)
                | (Inr hits, w2) \<Rightarrow>
                    (let field_list = map (\<lambda>arr. map_of (hit_source arr) field) hits in
                     case hits of
                       [] \<Rightarrow>
                         (Inr (Envelope
                                 (''No record with key='' @ quoted key @ '' and value=''
                                    @ quoted val @ '' exists in index '' @ quoted idx')
                                 HTTP_404_NOT_FOUND), w2)
                     | h # rest \<Rightarrow> (Inr (Field_values field_list), w2)))
             else (Inr (Envelope (index_missing_message idx') HTTP_404_NOT_FOUND), w1)))"

definition search_records_from_index_by_time_range ::
  "config \<Rightarrow> ('s, 'v) engine \<Rightarrow> string \<Rightarrow> string \<Rightarrow> string \<Rightarrow> string
     \<Rightarrow> ('s, 'v, 'v response) action" where
  "search_records_from_index_by_time_range cfg E idx date_field start end w =
     (if \<not> name_allowed cfg idx
      then (Inr (Envelope (search_name_message idx) HTTP_405_METHOD_NOT_ALLOWED), w)
      else
        (let idx' = normalize_index cfg idx in
         case perform (Indices_exists idx') (indices_exists E idx') w of
           (Inl ex, w1) \<Rightarrow> (Inl ex, w1)
         | (Inr found, w1) \<Rightarrow>
             if found
             then
               (let args = \<lparr>arg_index = idx', arg_body = None,
                            arg_query = Some (Range date_field start end), arg_size = Some (RECORDS cfg),
                            arg_request_timeout = Some (REQUEST_TIMEOUT cfg)\<rparr> in
                case perform (Search args) (search E args) w1 of
                  (Inl (ConnectionTimeout d), w2) \<Rightarrow>
                    (Inr (Envelope ''Request timed out'' HTTP_408_REQUEST_TIMEOUT),
                     log_error (ConnectionTimeout d) w2)
                | (Inl (OtherException d), w2) \<Rightarrow> (Inl (OtherException d), w2)
                | (Inr hits, w2) \<Rightarrow>
                    (let record_list = map hit_source hits in
                     case hits of
                       [] \<Rightarrow>
                         (Inr (Envelope
                                 (''No record in given time-range exists in index '' @ quoted idx')
                                 HTTP_404_NOT_FOUND), w2)
                     | h # rest \<Rightarrow> (Inr (Documents record_list), w2)))
             else (Inr (Envelope (index_missing_message idx') HTTP_404_NOT_FOUND), w1)))"

definition search_field_from_index_by_time_range ::
  "config \<Rightarrow> ('s, 'v) engine \<Rightarrow> string \<Rightarrow> string \<Rightarrow> string \<Rightarrow> string \<Rightarrow> string
     \<Rightarrow> ('s, 'v, 'v response) action" where
  "search_field_from_index_by_time_range cfg E idx date_field field start end w =
     (if \<not> name_allowed cfg idx
      then (Inr (Envelope (search_name_message idx) HTTP_405_METHOD_NOT_ALLOWED), w)
      else
        (let idx' = normalize_index cfg idx in
         case perform (Indices_exists idx') (indices_exists E idx') w of
           (Inl ex, w1) \<Rightarrow> (Inl ex, w1)
         | (Inr found, w1) \<Rightarrow>
             if found
             then
               (let args = \<lparr>arg_index = idx', arg_body = None,
                            arg_query = Some (Range date_field start end), arg_size = Some (RECORDS cfg),
                            arg_request_timeout = Some (REQUEST_TIMEOUT cfg)\<rparr> in
                case perform (Search args) (search E args) w1 of
                  (Inl (ConnectionTimeout d), w2) \<Rightarrow>
                    (Inr (Envelope ''Request timed out'' HTTP_408_REQUEST_TIMEOUT),
                     log_error (ConnectionTimeout d) w2)
                | (Inl (OtherException d), w2) \<Rightarrow> (Inl (OtherException d), w2)
                | (Inr hits, w2) \<Rightarrow>
                    (let data_list = map (\<lambda>arr. map_of (hit_source arr) field) hits in
                     case hits of
                       [] \<Rightarrow>
                         (Inr (Envelope
                                 (''No record in given time-range exists in index '' @ quoted idx')
                                 HTTP_404_NOT_FOUND), w2)
                     | h # rest \<Rightarrow> (Inr (Field_values data_list), w2)))
             else (Inr (Envelope (index_missing_message idx') HTTP_404_NOT_FOUND), w1)))"

definition search_all_occurances_of_keyword_in_index ::
  "config \<Rightarrow> ('s, 'v) engine \<Rightarrow> string \<Rightarrow> string
     \<Rightarrow> ('s, 'v, 'v response) action" where
  "search_all_occurances_of_keyword_in_index cfg E idx keyword w =
     (if \<not> name_allowed cfg idx
      then (Inr (Envelope (search_name_message idx) HTTP_405_METHOD_NOT_ALLOWED), w)
      else
        (let idx' = normalize_index cfg idx in
         case perform (Indices_exists idx') (indices_exists E idx') w of
           (Inl ex, w1) \<Rightarrow> (Inl ex, w1)
         | (Inr found, w1) \<Rightarrow>
             if found
             then
               (let args = \<lparr>arg_index = idx', arg_body = None,
                            arg_query = Some (Query_string keyword), arg_size = Some (RECORDS cfg),
                            arg_request_timeout = Some (REQUEST_TIMEOUT cfg)\<rparr> in
                case perform (Search args) (search E args) w1 of
                  (Inl (ConnectionTimeout d), w2) \<Rightarrow>
                    (Inr (Envelope ''Request timed out'' HTTP_408_REQUEST_TIMEOUT),
                     log_error (ConnectionTimeout d) w2)
                | (Inl (OtherException d), w2) \<Rightarrow> (Inl (OtherException d), w2)
                | (Inr hits, w2) \<Rightarrow>
                    (let record_list = map hit_source hits in
                     case hits of
                       [] \<Rightarrow>
                         (Inr (Envelope
                                 (''No record in given time-range exists in index '' @ quoted idx')
                                 HTTP_404_NOT_FOUND), w2)
                     | h # rest \<Rightarrow> (Inr (Documents record_list), w2)))
             else (Inr (Envelope (index_missing_message idx') HTTP_404_NOT_FOUND), w1)))"

definition search_all_occurances_of_text_in_index ::
  "config \<Rightarrow> ('s, 'v) engine \<Rightarrow> string \<Rightarrow> string
     \<Rightarrow> ('s, 'v, 'v response) action" where
  "search_all_occurances_of_text_in_index cfg E idx text w =
     (if \<not> name_allowed cfg idx
      then (Inr (Envelope (search_name_message idx) HTTP_405_METHOD_NOT_ALLOWED), w)
      else
        (let idx' = normalize_index cfg idx in
         case perform (Indices_exists idx') (indices_exists E idx') w of
           (Inl ex, w1) \<Rightarrow> (Inl ex, w1)
         | (Inr found, w1) \<Rightarrow>
             if found
             then
               (let str = ''*'' @ text @ ''*'';
                    args = \<lparr>arg_index = idx', arg_body = None,
                            arg_query = Some (Query_string str), arg_size = Some (RECORDS cfg),
                            arg_request_timeout = Some (REQUEST_TIMEOUT cfg)\<rparr> in
                case perform (Search args) (search E args) w1 of
                  (Inl (ConnectionTimeout d), w2) \<Rightarrow>
                    (Inr (Envelope ''Request timed out'' HTTP_408_REQUEST_TIMEOUT),
                     log_error (ConnectionTimeout d) w2)
                | (Inl (OtherException d), w2) \<Rightarrow> (Inl (OtherException d), w2)
                | (Inr hits, w2) \<Rightarrow>
                    (let record_list = map hit_source hits in
                     case hits of
                       [] \<Rightarrow>
                         (Inr (Envelope
                                 (''No record in given time-range exists in index '' @ quoted idx')
                                 HTTP_404_NOT_FOUND), w2)
                     | h # rest \<Rightarrow> (Inr (Documents record_list), w2)))
             else (Inr (Envelope (index_missing_message idx') HTTP_404_NOT_FOUND), w1)))"

section \<open>A simulated engine\<close>

text \<open>
  A small engine to run the functions on: its state is the list of the names of the
  indices that exist. When \<open>failing\<close> is \<open>Some ex\<close>, every create, delete, insert, bulk
  and search call raises \<open>ex\<close>; otherwise a search returns \<open>hits\<close>. The file it opens
  has a header row and one data row.
\<close>

definition sim_engine :: "exn option \<Rightarrow> nat hit list \<Rightarrow> (string list, nat) engine" where
  "sim_engine failing hits =
     \<lparr>cat_indices = (\<lambda>pattern h s names. (Inr (concat (map (\<lambda>n. n @ [CHR 0x0A]) names)), names)),
      indices_exists = (\<lambda>idx names. (Inr (idx \<in> set names), names)),
      indices_create = (\<lambda>idx shards replicas names.
         case failing of Some ex \<Rightarrow> (Inl ex, names) | None \<Rightarrow> (Inr (), names @ [idx])),
      indices_delete = (\<lambda>idx names.
         case failing of Some ex \<Rightarrow> (Inl ex, names) | None \<Rightarrow> (Inr (), removeAll idx names)),
      index_doc = (\<lambda>idx doc doc_id error_trace timeout names.
         case failing of Some ex \<Rightarrow> (Inl ex, names) | None \<Rightarrow> (Inr (), names)),
      search = (\<lambda>args names.
         case failing of Some ex \<Rightarrow> (Inl ex, names) | None \<Rightarrow> (Inr hits, names)),
      open_file = (\<lambda>filename names. (Inr [''id,name'', ''1,a''], names)),
      helpers_bulk = (\<lambda>rows idx names.
         case failing of Some ex \<Rightarrow> (Inl ex, names)
         | None \<Rightarrow> (Inr (), if idx \<in> set names then names else names @ [idx]))\<rparr>"

definition sim_config :: config where
  "sim_config =
     \<lparr>RECORDS = 100, SPECIAL_CHARS = [''!'', ''#'', ''$''], REQUEST_TIMEOUT = 30,
      INDEX_NAME_PREFIX = ''tdp_'', MAX_IDX_LIM = 2\<rparr>"

definition sim_world :: "string list \<Rightarrow> (string list, nat) world" where
  "sim_world names = \<lparr>es_state = names, calls = [], printed = []\<rparr>"

text \<open>
  An engine that cannot be reached: the existence check and the create, delete, insert,
  bulk and search calls all raise \<open>ex\<close>. The count query raises \<open>ex\<close> as well when
  \<open>count_fails\<close> holds, and lists the names otherwise.
\<close>

definition faulty_engine :: "exn \<Rightarrow> bool \<Rightarrow> (string list, nat) engine" where
  "faulty_engine ex count_fails =
     \<lparr>cat_indices = (\<lambda>pattern h s names.
         if count_fails then (Inl ex, names)
         else (Inr (concat (map (\<lambda>n. n @ [CHR 0x0A]) names)), names)),
      indices_exists = (\<lambda>idx names. (Inl ex, names)),
      indices_create = (\<lambda>idx shards replicas names. (Inl ex, names)),
      indices_delete = (\<lambda>idx names. (Inl ex, names)),
      index_doc = (\<lambda>idx doc doc_id error_trace timeout names. (Inl ex, names)),
      search = (\<lambda>args names. (Inl ex, names)),
      open_file = (\<lambda>filename names. (Inr [''id,name'', ''1,a''], names)),
      helpers_bulk = (\<lambda>rows idx names. (Inl ex, names))\<rparr>"

section \<open>Basic facts\<close>

lemmas status_defs =
  HTTP_200_OK_def HTTP_208_ALREADY_REPORTED_def HTTP_400_BAD_REQUEST_def
  HTTP_404_NOT_FOUND_def HTTP_405_METHOD_NOT_ALLOWED_def HTTP_406_NOT_ACCEPTABLE_def
  HTTP_408_REQUEST_TIMEOUT_def

lemma fold_allowed:
  "fold (\<lambda>char allowed. if sublist char idx then False else allowed) cs b
     = (b \<and> (\<forall>c \<in> set cs. \<not> sublist c idx))"
  by (induction cs arbitrary: b) auto

lemma name_allowed_iff:
  "name_allowed cfg idx = (\<forall>c \<in> set (SPECIAL_CHARS cfg). \<not> sublist c idx)"
  by (simp add: name_allowed_def fold_allowed)

lemma prefix_normalize_index: "prefix (INDEX_NAME_PREFIX cfg) (normalize_index cfg idx)"
  by (simp add: normalize_index_def)

lemma perform_result:
  "f (es_state w) = (r, s') \<Longrightarrow>
   perform c f w = (r, w\<lparr>es_state := s', calls := calls w @ [c]\<rparr>)"
  by (simp add: perform_def)

lemma sim_split:
  "py_split (concat (map (\<lambda>n. n @ [CHR 0x0A]) [''tdp_a'', ''tdp_b''])) = [''tdp_a'', ''tdp_b'']"
  by (simp add: py_split_def py_isspace_def)

section \<open>The prefix rule is idempotent\<close>

text \<open>
  Claim C7. A name that already starts with \<open>INDEX_NAME_PREFIX\<close> is returned unchanged by
  the prefix rule, and for every name applying the rule twice gives what applying it once
  gives.
\<close>

theorem normalize_index_idempotent:
  "(prefix (INDEX_NAME_PREFIX cfg) idx \<longrightarrow> normalize_index cfg idx = idx)
   \<and> normalize_index cfg (normalize_index cfg idx) = normalize_index cfg idx"
  by (simp add: normalize_index_def)

theorem normalize_index_idempotent_witness:
  "prefix (INDEX_NAME_PREFIX sim_config) ''tdp_orders''
   \<and> normalize_index sim_config ''tdp_orders'' = ''tdp_orders''
   \<and> normalize_index sim_config ''orders'' = ''tdp_orders''
   \<and> normalize_index sim_config (normalize_index sim_config ''orders'') = ''tdp_orders''"
  using normalize_index_idempotent [of sim_config "''tdp_orders''"]
    normalize_index_idempotent [of sim_config "''orders''"]
  by (simp add: normalize_index_def sim_config_def)

section \<open>The capacity check of create\<close>

text \<open>
  Claim C1. Whatever the index name, valid or not: when the text that \<^verbatim>\<open>cat.indices\<close>
  returns for the prefixed pattern splits into at least \<open>MAX_IDX_LIM\<close> names,
  \<open>create_a_single_index\<close> returns the capacity envelope with status 406, and the count
  query is the only call it has made: the check comes before the name check, the prefix
  rule, the existence check and the create call.
\<close>

theorem create_refuses_at_capacity:
  assumes "cat_indices E (INDEX_NAME_PREFIX cfg @ ''*'') ''index'' ''index:desc'' (es_state w)
             = (Inr txt, s1)"
    and "int (length (py_split txt)) \<ge> MAX_IDX_LIM cfg"
  shows "create_a_single_index cfg E idx w =
           (Inr (Envelope (limit_message cfg) 406),
            w\<lparr>es_state := s1,
              calls := calls w
                @ [Cat_indices (INDEX_NAME_PREFIX cfg @ ''*'') ''index'' ''index:desc'']\<rparr>)"
  using assms
  by (simp add: create_a_single_index_def no_of_tdp_idx_def perform_def
      HTTP_406_NOT_ACCEPTABLE_def)

theorem create_refuses_at_capacity_witness:
  "\<not> name_allowed sim_config ''bad!name''
   \<and> create_a_single_index sim_config (sim_engine None []) ''bad!name''
         (sim_world [''tdp_a'', ''tdp_b''])
       = (Inr (Envelope (limit_message sim_config) 406),
          \<lparr>es_state = [''tdp_a'', ''tdp_b''],
           calls = [Cat_indices ''tdp_*'' ''index'' ''index:desc''], printed = []\<rparr>)"
proof -
  have h1: "cat_indices (sim_engine None []) (INDEX_NAME_PREFIX sim_config @ ''*'') ''index''
              ''index:desc'' (es_state (sim_world [''tdp_a'', ''tdp_b'']))
            = (Inr (concat (map (\<lambda>n. n @ [CHR 0x0A]) [''tdp_a'', ''tdp_b''])),
               [''tdp_a'', ''tdp_b''])"
    by (simp add: sim_engine_def sim_world_def)
  have h2: "int (length (py_split (concat (map (\<lambda>n. n @ [CHR 0x0A]) [''tdp_a'', ''tdp_b'']))))
              \<ge> MAX_IDX_LIM sim_config"
    unfolding sim_split by (simp add: sim_config_def)
  have h3: "\<not> name_allowed sim_config ''bad!name''"
    by (simp add: name_allowed_def sim_config_def sublist_code)
  show ?thesis
    using create_refuses_at_capacity [OF h1 h2, of "''bad!name''"] h3
    by (simp add: sim_world_def sim_config_def)
qed

lemmas search_defs =
  search_record_from_index_by_given_id_def
  search_records_from_index_by_given_key_and_value_def
  search_field_from_index_by_given_key_and_value_def
  search_records_from_index_by_time_range_def
  search_field_from_index_by_time_range_def
  search_all_occurances_of_keyword_in_index_def
  search_all_occurances_of_text_in_index_def

lemma sim_name_allowed: "name_allowed sim_config ''orders''"
  by (simp add: name_allowed_def sim_config_def sublist_code)

lemma sim_normalize_index: "normalize_index sim_config ''orders'' = ''tdp_orders''"
  by (simp add: normalize_index_def sim_config_def)

lemma sim_constants:
  "RECORDS sim_config = 100" "REQUEST_TIMEOUT sim_config = 30" "MAX_IDX_LIM sim_config = 2"
  "INDEX_NAME_PREFIX sim_config = ''tdp_''" "SPECIAL_CHARS sim_config = [''!'', ''#'', ''$'']"
  by (simp_all add: sim_config_def)

lemma sim_exists:
  "indices_exists (sim_engine failing hits) idx' (es_state (sim_world names))
     = (Inr (idx' \<in> set names), names)"
  by (simp add: sim_engine_def sim_world_def)

lemma sim_search_fails:
  "search (sim_engine (Some ex) hits) args names = (Inl ex, names)"
  by (simp add: sim_engine_def)

lemma sim_search_hits:
  "search (sim_engine None hits) args names = (Inr hits, names)"
  by (simp add: sim_engine_def)

section \<open>Operations on an index that does not exist\<close>

text \<open>
  Claim C4. For a name that passes the name check, when \<^verbatim>\<open>indices.exists\<close> answers
  \<open>False\<close> for the normalized name: delete and single insert return the envelope with
  status 400, each of the seven searches returns the envelope with status 404, and in
  every case the existence check is the only call that was made (no delete, index or
  search call) and nothing was printed.
\<close>

theorem missing_index_stops_after_existence_check:
  assumes "name_allowed cfg idx"
    and "indices_exists E (normalize_index cfg idx) (es_state w) = (Inr False, s1)"
  shows "delete_a_single_index cfg E idx w =
       (Inr (Envelope (''Index '' @ quoted (normalize_index cfg idx)
                         @ '' does not exist, nothing to delete'') 400),
        w\<lparr>es_state := s1, calls := calls w @ [Indices_exists (normalize_index cfg idx)]\<rparr>)
   \<and> insert_a_single_doc cfg E idx doc_id doc w =
       (Inr (Envelope ([CHR 0x27] @ normalize_index cfg idx
                         @ '' doesn't exist, create this index to insert records''
                         @ [CHR 0x27]) 400),
        w\<lparr>es_state := s1, calls := calls w @ [Indices_exists (normalize_index cfg idx)]\<rparr>)
   \<and> search_record_from_index_by_given_id cfg E idx doc_id w =
       (Inr (Envelope (index_missing_message (normalize_index cfg idx)) 404),
        w\<lparr>es_state := s1, calls := calls w @ [Indices_exists (normalize_index cfg idx)]\<rparr>)
   \<and> search_records_from_index_by_given_key_and_value cfg E idx key val w =
       (Inr (Envelope (index_missing_message (normalize_index cfg idx)) 404),
        w\<lparr>es_state := s1, calls := calls w @ [Indices_exists (normalize_index cfg idx)]\<rparr>)
   \<and> search_field_from_index_by_given_key_and_value cfg E idx field key val w =
       (Inr (Envelope (index_missing_message (normalize_index cfg idx)) 404),
        w\<lparr>es_state := s1, calls := calls w @ [Indices_exists (normalize_index cfg idx)]\<rparr>)
   \<and> search_records_from_index_by_time_range cfg E idx date_field start end w =
       (Inr (Envelope (index_missing_message (normalize_index cfg idx)) 404),
        w\<lparr>es_state := s1, calls := calls w @ [Indices_exists (normalize_index cfg idx)]\<rparr>)
   \<and> search_field_from_index_by_time_range cfg E idx date_field field start end w =
       (Inr (Envelope (index_missing_message (normalize_index cfg idx)) 404),
        w\<lparr>es_state := s1, calls := calls w @ [Indices_exists (normalize_index cfg idx)]\<rparr>)
   \<and> search_all_occurances_of_keyword_in_index cfg E idx keyword w =
       (Inr (Envelope (index_missing_message (normalize_index cfg idx)) 404),
        w\<lparr>es_state := s1, calls := calls w @ [Indices_exists (normalize_index cfg idx)]\<rparr>)
   \<and> search_all_occurances_of_text_in_index cfg E idx text w =
       (Inr (Envelope (index_missing_message (normalize_index cfg idx)) 404),
        w\<lparr>es_state := s1, calls := calls w @ [Indices_exists (normalize_index cfg idx)]\<rparr>)"
  using assms
  by (intro conjI)
    (simp_all add: delete_a_single_index_def insert_a_single_doc_def search_defs perform_def
      Let_def status_defs)

theorem missing_index_stops_after_existence_check_witness:
  "name_allowed sim_config ''orders''
   \<and> delete_a_single_index sim_config (sim_engine None []) ''orders'' (sim_world []) =
       (Inr (Envelope (''Index '' @ quoted ''tdp_orders'' @ '' does not exist, nothing to delete'')
               400), \<lparr>es_state = [], calls = [Indices_exists ''tdp_orders''], printed = []\<rparr>)
   \<and> insert_a_single_doc sim_config (sim_engine None []) ''orders'' ''7'' [(''name'', 1)]
         (sim_world []) =
       (Inr (Envelope ([CHR 0x27] @ ''tdp_orders doesn't exist, create this index to insert records''
                         @ [CHR 0x27]) 400), \<lparr>es_state = [], calls = [Indices_exists ''tdp_orders''], printed = []\<rparr>)
   \<and> search_record_from_index_by_given_id sim_config (sim_engine None []) ''orders'' ''7''
         (sim_world []) =
       (Inr (Envelope (''Index '' @ quoted ''tdp_orders'' @ '' doesn't exist'') 404), \<lparr>es_state = [], calls = [Indices_exists ''tdp_orders''], printed = []\<rparr>)
   \<and> search_records_from_index_by_given_key_and_value sim_config (sim_engine None []) ''orders'' ''name'' ''x''
         (sim_world []) =
       (Inr (Envelope (''Index '' @ quoted ''tdp_orders'' @ '' doesn't exist'') 404), \<lparr>es_state = [], calls = [Indices_exists ''tdp_orders''], printed = []\<rparr>)
   \<and> search_field_from_index_by_given_key_and_value sim_config (sim_engine None []) ''orders'' ''name'' ''name'' ''x''
         (sim_world []) =
       (Inr (Envelope (''Index '' @ quoted ''tdp_orders'' @ '' doesn't exist'') 404), \<lparr>es_state = [], calls = [Indices_exists ''tdp_orders''], printed = []\<rparr>)
   \<and> search_records_from_index_by_time_range sim_config (sim_engine None []) ''orders'' ''ts'' ''a'' ''b''
         (sim_world []) =
       (Inr (Envelope (''Index '' @ quoted ''tdp_orders'' @ '' doesn't exist'') 404), \<lparr>es_state = [], calls = [Indices_exists ''tdp_orders''], printed = []\<rparr>)
   \<and> search_field_from_index_by_time_range sim_config (sim_engine None []) ''orders'' ''ts'' ''name'' ''a'' ''b''
         (sim_world []) =
       (Inr (Envelope (''Index '' @ quoted ''tdp_orders'' @ '' doesn't exist'') 404), \<lparr>es_state = [], calls = [Indices_exists ''tdp_orders''], printed = []\<rparr>)
   \<and> search_all_occurances_of_keyword_in_index sim_config (sim_engine None []) ''orders'' ''kw''
         (sim_world []) =
       (Inr (Envelope (''Index '' @ quoted ''tdp_orders'' @ '' doesn't exist'') 404), \<lparr>es_state = [], calls = [Indices_exists ''tdp_orders''], printed = []\<rparr>)
   \<and> search_all_occurances_of_text_in_index sim_config (sim_engine None []) ''orders'' ''tx''
         (sim_world []) =
       (Inr (Envelope (''Index '' @ quoted ''tdp_orders'' @ '' doesn't exist'') 404), \<lparr>es_state = [], calls = [Indices_exists ''tdp_orders''], printed = []\<rparr>)"
proof -
  have h: "indices_exists (sim_engine None ([] :: nat hit list))
             (normalize_index sim_config ''orders'') (es_state (sim_world []))
           = (Inr False, [])"
    by (simp add: sim_exists)
  show ?thesis
    using missing_index_stops_after_existence_check [OF sim_name_allowed h]
    by (simp add: sim_name_allowed sim_normalize_index sim_world_def index_missing_message_def)
qed

section \<open>A timeout of a search\<close>

text \<open>
  Claim C5, as stated, fails when it is the existence check that times out:
  \<^verbatim>\<open>_es.indices.exists\<close> stands before the \<^verbatim>\<open>try\<close> in all seven searches. On an
  engine that holds the index \<open>tdp_orders\<close> and whose existence check raises
  \<^verbatim>\<open>ConnectionTimeout\<close>, every search ends with that exception after the one call, and
  returns no envelope.
\<close>

theorem existence_check_timeout_escapes_counterexample:
  "search_record_from_index_by_given_id sim_config
       (faulty_engine (ConnectionTimeout ''slow'') False) ''orders'' ''7''
       (sim_world [''tdp_orders''])
     = (Inl (ConnectionTimeout ''slow''), \<lparr>es_state = [''tdp_orders''], calls = [Indices_exists ''tdp_orders''], printed = []\<rparr>)
   \<and> search_records_from_index_by_given_key_and_value sim_config
       (faulty_engine (ConnectionTimeout ''slow'') False) ''orders'' ''name'' ''x''
       (sim_world [''tdp_orders''])
     = (Inl (ConnectionTimeout ''slow''), \<lparr>es_state = [''tdp_orders''], calls = [Indices_exists ''tdp_orders''], printed = []\<rparr>)
   \<and> search_field_from_index_by_given_key_and_value sim_config
       (faulty_engine (ConnectionTimeout ''slow'') False) ''orders'' ''name'' ''name'' ''x''
       (sim_world [''tdp_orders''])
     = (Inl (ConnectionTimeout ''slow''), \<lparr>es_state = [''tdp_orders''], calls = [Indices_exists ''tdp_orders''], printed = []\<rparr>)
   \<and> search_records_from_index_by_time_range sim_config
       (faulty_engine (ConnectionTimeout ''slow'') False) ''orders'' ''ts'' ''a'' ''b''
       (sim_world [''tdp_orders''])
     = (Inl (ConnectionTimeout ''slow''), \<lparr>es_state = [''tdp_orders''], calls = [Indices_exists ''tdp_orders''], printed = []\<rparr>)
   \<and> search_field_from_index_by_time_range sim_config
       (faulty_engine (ConnectionTimeout ''slow'') False) ''orders'' ''ts'' ''name'' ''a'' ''b''
       (sim_world [''tdp_orders''])
     = (Inl (ConnectionTimeout ''slow''), \<lparr>es_state = [''tdp_orders''], calls = [Indices_exists ''tdp_orders''], printed = []\<rparr>)
   \<and> search_all_occurances_of_keyword_in_index sim_config
       (faulty_engine (ConnectionTimeout ''slow'') False) ''orders'' ''kw''
       (sim_world [''tdp_orders''])
     = (Inl (ConnectionTimeout ''slow''), \<lparr>es_state = [''tdp_orders''], calls = [Indices_exists ''tdp_orders''], printed = []\<rparr>)
   \<and> search_all_occurances_of_text_in_index sim_config
       (faulty_engine (ConnectionTimeout ''slow'') False) ''orders'' ''tx''
       (sim_world [''tdp_orders''])
     = (Inl (ConnectionTimeout ''slow''), \<lparr>es_state = [''tdp_orders''], calls = [Indices_exists ''tdp_orders''], printed = []\<rparr>)
   \<and> fst (search_record_from_index_by_given_id sim_config
          (faulty_engine (ConnectionTimeout ''slow'') False) ''orders'' ''7''
          (sim_world [''tdp_orders'']))
     \<noteq> Inr (Envelope ''Request timed out'' HTTP_408_REQUEST_TIMEOUT)"
  by (simp add: search_defs perform_def Let_def sim_name_allowed sim_normalize_index
      faulty_engine_def sim_world_def)

text \<open>
  Claim C5, amended. For each of the seven search operations, on a name that passes the
  name check: when the existence check answers that the index exists and the search call
  raises \<^verbatim>\<open>ConnectionTimeout\<close>, the operation returns the envelope
  \<open>Request timed out\<close> with status 408, after the existence check and that one search
  call, and prints the exception; no envelope with the not-found status 404 (record not
  found, index missing) equals it, and those two outcomes, an empty list of hits and an
  index reported as missing, are envelopes with status 404. When the existence check itself
  raises, a
  \<^verbatim>\<open>ConnectionTimeout\<close> included, the exception is not caught: the operation ends with
  it after that one call.
\<close>

theorem search_timeout_is_reported:
  assumes "name_allowed cfg idx"
  shows "(indices_exists E (normalize_index cfg idx) (es_state w) = (Inr True, s1)
       \<and> search E
           \<lparr>arg_index = (normalize_index cfg idx), arg_body = Some (Match ''_id'' doc_id), arg_query = None, arg_size = None,
            arg_request_timeout = Some (REQUEST_TIMEOUT cfg)\<rparr> s1
           = (Inl (ConnectionTimeout d), s2)
       \<longrightarrow> search_record_from_index_by_given_id cfg E idx doc_id w =
           (Inr (Envelope ''Request timed out'' 408),
            w\<lparr>es_state := s2,
            calls := calls w @ [Indices_exists (normalize_index cfg idx), Search
            \<lparr>arg_index = (normalize_index cfg idx), arg_body = Some (Match ''_id'' doc_id), arg_query = None, arg_size = None,
              arg_request_timeout = Some (REQUEST_TIMEOUT cfg)\<rparr>],
            printed := printed w @ [ConnectionTimeout d]\<rparr>))
   \<and> (indices_exists E (normalize_index cfg idx) (es_state w) = (Inr True, s1)
       \<and> search E
           \<lparr>arg_index = (normalize_index cfg idx), arg_body = None, arg_query = Some (Match key val), arg_size = Some (RECORDS cfg),
            arg_request_timeout = Some (REQUEST_TIMEOUT cfg)\<rparr> s1
           = (Inl (ConnectionTimeout d), s2)
       \<longrightarrow> search_records_from_index_by_given_key_and_value cfg E idx key val w =
           (Inr (Envelope ''Request timed out'' 408),
            w\<lparr>es_state := s2,
            calls := calls w @ [Indices_exists (normalize_index cfg idx), Search
            \<lparr>arg_index = (normalize_index cfg idx), arg_body = None, arg_query = Some (Match key val), arg_size = Some (RECORDS cfg),
              arg_request_timeout = Some (REQUEST_TIMEOUT cfg)\<rparr>],
            printed := printed w @ [ConnectionTimeout d]\<rparr>))
   \<and> (indices_exists E (normalize_index cfg idx) (es_state w) = (Inr True, s1)
       \<and> search E
           \<lparr>arg_index = (normalize_index cfg idx), arg_body = None, arg_query = Some (Match key val), arg_size = Some (RECORDS cfg),
            arg_request_timeout = Some (REQUEST_TIMEOUT cfg)\<rparr> s1
           = (Inl (ConnectionTimeout d), s2)
       \<longrightarrow> search_field_from_index_by_given_key_and_value cfg E idx field key val w =
           (Inr (Envelope ''Request timed out'' 408),
            w\<lparr>es_state := s2,
            calls := calls w @ [Indices_exists (normalize_index cfg idx), Search
            \<lparr>arg_index = (normalize_index cfg idx), arg_body = None, arg_query = Some (Match key val), arg_size = Some (RECORDS cfg),
              arg_request_timeout = Some (REQUEST_TIMEOUT cfg)\<rparr>],
            printed := printed w @ [ConnectionTimeout d]\<rparr>))
   \<and> (indices_exists E (normalize_index cfg idx) (es_state w) = (Inr True, s1)
       \<and> search E
           \<lparr>arg_index = (normalize_index cfg idx), arg_body = None, arg_query = Some (Range date_field start end), arg_size = Some (RECORDS cfg),
            arg_request_timeout = Some (REQUEST_TIMEOUT cfg)\<rparr> s1
           = (Inl (ConnectionTimeout d), s2)
       \<longrightarrow> search_records_from_index_by_time_range cfg E idx date_field start end w =
           (Inr (Envelope ''Request timed out'' 408),
            w\<lparr>es_state := s2,
            calls := calls w @ [Indices_exists (normalize_index cfg idx), Search
            \<lparr>arg_index = (normalize_index cfg idx), arg_body = None, arg_query = Some (Range date_field start end), arg_size = Some (RECORDS cfg),
              arg_request_timeout = Some (REQUEST_TIMEOUT cfg)\<rparr>],
            printed := printed w @ [ConnectionTimeout d]\<rparr>))
   \<and> (indices_exists E (normalize_index cfg idx) (es_state w) = (Inr True, s1)
       \<and> search E
           \<lparr>arg_index = (normalize_index cfg idx), arg_body = None, arg_query = Some (Range date_field start end), arg_size = Some (RECORDS cfg),
            arg_request_timeout = Some (REQUEST_TIMEOUT cfg)\<rparr> s1
           = (Inl (ConnectionTimeout d), s2)
       \<longrightarrow> search_field_from_index_by_time_range cfg E idx date_field field start end w =
           (Inr (Envelope ''Request timed out'' 408),
            w\<lparr>es_state := s2,
            calls := calls w @ [Indices_exists (normalize_index cfg idx), Search
            \<lparr>arg_index = (normalize_index cfg idx), arg_body = None, arg_query = Some (Range date_field start end), arg_size = Some (RECORDS cfg),
              arg_request_timeout = Some (REQUEST_TIMEOUT cfg)\<rparr>],
            printed := printed w @ [ConnectionTimeout d]\<rparr>))
   \<and> (indices_exists E (normalize_index cfg idx) (es_state w) = (Inr True, s1)
       \<and> search E
           \<lparr>arg_index = (normalize_index cfg idx), arg_body = None, arg_query = Some (Query_string keyword), arg_size = Some (RECORDS cfg),
            arg_request_timeout = Some (REQUEST_TIMEOUT cfg)\<rparr> s1
           = (Inl (ConnectionTimeout d), s2)
       \<longrightarrow> search_all_occurances_of_keyword_in_index cfg E idx keyword w =
           (Inr (Envelope ''Request timed out'' 408),
            w\<lparr>es_state := s2,
            calls := calls w @ [Indices_exists (normalize_index cfg idx), Search
            \<lparr>arg_index = (normalize_index cfg idx), arg_body = None, arg_query = Some (Query_string keyword), arg_size = Some (RECORDS cfg),
              arg_request_timeout = Some (REQUEST_TIMEOUT cfg)\<rparr>],
            printed := printed w @ [ConnectionTimeout d]\<rparr>))
   \<and> (indices_exists E (normalize_index cfg idx) (es_state w) = (Inr True, s1)
       \<and> search E
           \<lparr>arg_index = (normalize_index cfg idx), arg_body = None, arg_query = Some (Query_string (''*'' @ text @ ''*'')), arg_size = Some (RECORDS cfg),
            arg_request_timeout = Some (REQUEST_TIMEOUT cfg)\<rparr> s1
           = (Inl (ConnectionTimeout d), s2)
       \<longrightarrow> search_all_occurances_of_text_in_index cfg E idx text w =
           (Inr (Envelope ''Request timed out'' 408),
            w\<lparr>es_state := s2,
            calls := calls w @ [Indices_exists (normalize_index cfg idx), Search
            \<lparr>arg_index = (normalize_index cfg idx), arg_body = None, arg_query = Some (Query_string (''*'' @ text @ ''*'')), arg_size = Some (RECORDS cfg),
              arg_request_timeout = Some (REQUEST_TIMEOUT cfg)\<rparr>],
            printed := printed w @ [ConnectionTimeout d]\<rparr>))
   \<and> (indices_exists E (normalize_index cfg idx) (es_state w) = (Inl ex, s1)
       \<longrightarrow> search_record_from_index_by_given_id cfg E idx doc_id w =
           (Inl ex, w\<lparr>es_state := s1, calls := calls w @ [Indices_exists (normalize_index cfg idx)]\<rparr>))
   \<and> (indices_exists E (normalize_index cfg idx) (es_state w) = (Inl ex, s1)
       \<longrightarrow> search_records_from_index_by_given_key_and_value cfg E idx key val w =
           (Inl ex, w\<lparr>es_state := s1, calls := calls w @ [Indices_exists (normalize_index cfg idx)]\<rparr>))
   \<and> (indices_exists E (normalize_index cfg idx) (es_state w) = (Inl ex, s1)
       \<longrightarrow> search_field_from_index_by_given_key_and_value cfg E idx field key val w =
           (Inl ex, w\<lparr>es_state := s1, calls := calls w @ [Indices_exists (normalize_index cfg idx)]\<rparr>))
   \<and> (indices_exists E (normalize_index cfg idx) (es_state w) = (Inl ex, s1)
       \<longrightarrow> search_records_from_index_by_time_range cfg E idx date_field start end w =
           (Inl ex, w\<lparr>es_state := s1, calls := calls w @ [Indices_exists (normalize_index cfg idx)]\<rparr>))
   \<and> (indices_exists E (normalize_index cfg idx) (es_state w) = (Inl ex, s1)
       \<longrightarrow> search_field_from_index_by_time_range cfg E idx date_field field start end w =
           (Inl ex, w\<lparr>es_state := s1, calls := calls w @ [Indices_exists (normalize_index cfg idx)]\<rparr>))
   \<and> (indices_exists E (normalize_index cfg idx) (es_state w) = (Inl ex, s1)
       \<longrightarrow> search_all_occurances_of_keyword_in_index cfg E idx keyword w =
           (Inl ex, w\<lparr>es_state := s1, calls := calls w @ [Indices_exists (normalize_index cfg idx)]\<rparr>))
   \<and> (indices_exists E (normalize_index cfg idx) (es_state w) = (Inl ex, s1)
       \<longrightarrow> search_all_occurances_of_text_in_index cfg E idx text w =
           (Inl ex, w\<lparr>es_state := s1, calls := calls w @ [Indices_exists (normalize_index cfg idx)]\<rparr>))
   \<and> (indices_exists E (normalize_index cfg idx) (es_state w) = (Inr True, s1)
       \<and> search E
           \<lparr>arg_index = (normalize_index cfg idx), arg_body = Some (Match ''_id'' doc_id), arg_query = None, arg_size = None,
            arg_request_timeout = Some (REQUEST_TIMEOUT cfg)\<rparr> s1
           = (Inr [], s2)
       \<longrightarrow> fst (search_record_from_index_by_given_id cfg E idx doc_id w) =
           Inr (Envelope (''No record with id='' @ doc_id @ '' exists in index '' @ quoted (normalize_index cfg idx)) HTTP_404_NOT_FOUND))
   \<and> (indices_exists E (normalize_index cfg idx) (es_state w) = (Inr True, s1)
       \<and> search E
           \<lparr>arg_index = (normalize_index cfg idx), arg_body = None, arg_query = Some (Match key val), arg_size = Some (RECORDS cfg),
            arg_request_timeout = Some (REQUEST_TIMEOUT cfg)\<rparr> s1
           = (Inr [], s2)
       \<longrightarrow> fst (search_records_from_index_by_given_key_and_value cfg E idx key val w) =
           Inr (Envelope (''No record with key='' @ quoted key @ '' and value='' @ quoted val
                 @ '' exists in index '' @ quoted (normalize_index cfg idx)) HTTP_404_NOT_FOUND))
   \<and> (indices_exists E (normalize_index cfg idx) (es_state w) = (Inr True, s1)
       \<and> search E
           \<lparr>arg_index = (normalize_index cfg idx), arg_body = None, arg_query = Some (Match key val), arg_size = Some (RECORDS cfg),
            arg_request_timeout = Some (REQUEST_TIMEOUT cfg)\<rparr> s1
           = (Inr [], s2)
       \<longrightarrow> fst (search_field_from_index_by_given_key_and_value cfg E idx field key val w) =
           Inr (Envelope (''No record with key='' @ quoted key @ '' and value='' @ quoted val
                 @ '' exists in index '' @ quoted (normalize_index cfg idx)) HTTP_404_NOT_FOUND))
   \<and> (indices_exists E (normalize_index cfg idx) (es_state w) = (Inr True, s1)
       \<and> search E
           \<lparr>arg_index = (normalize_index cfg idx), arg_body = None, arg_query = Some (Range date_field start end), arg_size = Some (RECORDS cfg),
            arg_request_timeout = Some (REQUEST_TIMEOUT cfg)\<rparr> s1
           = (Inr [], s2)
       \<longrightarrow> fst (search_records_from_index_by_time_range cfg E idx date_field start end w) =
           Inr (Envelope (''No record in given time-range exists in index '' @ quoted (normalize_index cfg idx)) HTTP_404_NOT_FOUND))
   \<and> (indices_exists E (normalize_index cfg idx) (es_state w) = (Inr True, s1)
       \<and> search E
           \<lparr>arg_index = (normalize_index cfg idx), arg_body = None, arg_query = Some (Range date_field start end), arg_size = Some (RECORDS cfg),
            arg_request_timeout = Some (REQUEST_TIMEOUT cfg)\<rparr> s1
           = (Inr [], s2)
       \<longrightarrow> fst (search_field_from_index_by_time_range cfg E idx date_field field start end w) =
           Inr (Envelope (''No record in given time-range exists in index '' @ quoted (normalize_index cfg idx)) HTTP_404_NOT_FOUND))
   \<and> (indices_exists E (normalize_index cfg idx) (es_state w) = (Inr True, s1)
       \<and> search E
           \<lparr>arg_index = (normalize_index cfg idx), arg_body = None, arg_query = Some (Query_string keyword), arg_size = Some (RECORDS cfg),
            arg_request_timeout = Some (REQUEST_TIMEOUT cfg)\<rparr> s1
           = (Inr [], s2)
       \<longrightarrow> fst (search_all_occurances_of_keyword_in_index cfg E idx keyword w) =
           Inr (Envelope (''No record in given time-range exists in index '' @ quoted (normalize_index cfg idx)) HTTP_404_NOT_FOUND))
   \<and> (indices_exists E (normalize_index cfg idx) (es_state w) = (Inr True, s1)
       \<and> search E
           \<lparr>arg_index = (normalize_index cfg idx), arg_body = None, arg_query = Some (Query_string (''*'' @ text @ ''*'')), arg_size = Some (RECORDS cfg),
            arg_request_timeout = Some (REQUEST_TIMEOUT cfg)\<rparr> s1
           = (Inr [], s2)
       \<longrightarrow> fst (search_all_occurances_of_text_in_index cfg E idx text w) =
           Inr (Envelope (''No record in given time-range exists in index '' @ quoted (normalize_index cfg idx)) HTTP_404_NOT_FOUND))
   \<and> (indices_exists E (normalize_index cfg idx) (es_state w) = (Inr False, s1)
       \<longrightarrow> fst (search_record_from_index_by_given_id cfg E idx doc_id w) =
           Inr (Envelope (index_missing_message (normalize_index cfg idx)) HTTP_404_NOT_FOUND))
   \<and> (indices_exists E (normalize_index cfg idx) (es_state w) = (Inr False, s1)
       \<longrightarrow> fst (search_records_from_index_by_given_key_and_value cfg E idx key val w) =
           Inr (Envelope (index_missing_message (normalize_index cfg idx)) HTTP_404_NOT_FOUND))
   \<and> (indices_exists E (normalize_index cfg idx) (es_state w) = (Inr False, s1)
       \<longrightarrow> fst (search_field_from_index_by_given_key_and_value cfg E idx field key val w) =
           Inr (Envelope (index_missing_message (normalize_index cfg idx)) HTTP_404_NOT_FOUND))
   \<and> (indices_exists E (normalize_index cfg idx) (es_state w) = (Inr False, s1)
       \<longrightarrow> fst (search_records_from_index_by_time_range cfg E idx date_field start end w) =
           Inr (Envelope (index_missing_message (normalize_index cfg idx)) HTTP_404_NOT_FOUND))
   \<and> (indices_exists E (normalize_index cfg idx) (es_state w) = (Inr False, s1)
       \<longrightarrow> fst (search_field_from_index_by_time_range cfg E idx date_field field start end w) =
           Inr (Envelope (index_missing_message (normalize_index cfg idx)) HTTP_404_NOT_FOUND))
   \<and> (indices_exists E (normalize_index cfg idx) (es_state w) = (Inr False, s1)
       \<longrightarrow> fst (search_all_occurances_of_keyword_in_index cfg E idx keyword w) =
           Inr (Envelope (index_missing_message (normalize_index cfg idx)) HTTP_404_NOT_FOUND))
   \<and> (indices_exists E (normalize_index cfg idx) (es_state w) = (Inr False, s1)
       \<longrightarrow> fst (search_all_occurances_of_text_in_index cfg E idx text w) =
           Inr (Envelope (index_missing_message (normalize_index cfg idx)) HTTP_404_NOT_FOUND))
   \<and> Envelope ''Request timed out'' 408 \<noteq> Envelope m HTTP_404_NOT_FOUND"
  using assms
  by (intro conjI impI)
    (simp_all add: search_defs perform_def log_error_def Let_def status_defs)

theorem search_timeout_is_reported_witness:
  "name_allowed sim_config ''orders''
   \<and> search_record_from_index_by_given_id sim_config (sim_engine (Some (ConnectionTimeout ''slow'')) [])
         ''orders'' ''7'' (sim_world [''tdp_orders'']) =
       (Inr (Envelope ''Request timed out'' 408),
        \<lparr>es_state = [''tdp_orders''],
         calls = [Indices_exists ''tdp_orders'', Search
          \<lparr>arg_index = ''tdp_orders'', arg_body = Some (Match ''_id'' ''7''), arg_query = None, arg_size = None,
          arg_request_timeout = Some 30\<rparr>],
         printed = [ConnectionTimeout ''slow'']\<rparr>)
   \<and> search_records_from_index_by_given_key_and_value sim_config (sim_engine (Some (ConnectionTimeout ''slow'')) [])
         ''orders'' ''name'' ''x'' (sim_world [''tdp_orders'']) =
       (Inr (Envelope ''Request timed out'' 408),
        \<lparr>es_state = [''tdp_orders''],
         calls = [Indices_exists ''tdp_orders'', Search
          \<lparr>arg_index = ''tdp_orders'', arg_body = None, arg_query = Some (Match ''name'' ''x''), arg_size = Some 100,
          arg_request_timeout = Some 30\<rparr>],
         printed = [ConnectionTimeout ''slow'']\<rparr>)
   \<and> search_field_from_index_by_given_key_and_value sim_config (sim_engine (Some (ConnectionTimeout ''slow'')) [])
         ''orders'' ''name'' ''name'' ''x'' (sim_world [''tdp_orders'']) =
       (Inr (Envelope ''Request timed out'' 408),
        \<lparr>es_state = [''tdp_orders''],
         calls = [Indices_exists ''tdp_orders'', Search
          \<lparr>arg_index = ''tdp_orders'', arg_body = None, arg_query = Some (Match ''name'' ''x''), arg_size = Some 100,
          arg_request_timeout = Some 30\<rparr>],
         printed = [ConnectionTimeout ''slow'']\<rparr>)
   \<and> search_records_from_index_by_time_range sim_config (sim_engine (Some (ConnectionTimeout ''slow'')) [])
         ''orders'' ''ts'' ''a'' ''b'' (sim_world [''tdp_orders'']) =
       (Inr (Envelope ''Request timed out'' 408),
        \<lparr>es_state = [''tdp_orders''],
         calls = [Indices_exists ''tdp_orders'', Search
          \<lparr>arg_index = ''tdp_orders'', arg_body = None, arg_query = Some (Range ''ts'' ''a'' ''b''), arg_size = Some 100,
          arg_request_timeout = Some 30\<rparr>],
         printed = [ConnectionTimeout ''slow'']\<rparr>)
   \<and> search_field_from_index_by_time_range sim_config (sim_engine (Some (ConnectionTimeout ''slow'')) [])
         ''orders'' ''ts'' ''name'' ''a'' ''b'' (sim_world [''tdp_orders'']) =
       (Inr (Envelope ''Request timed out'' 408),
        \<lparr>es_state = [''tdp_orders''],
         calls = [Indices_exists ''tdp_orders'', Search
          \<lparr>arg_index = ''tdp_orders'', arg_body = None, arg_query = Some (Range ''ts'' ''a'' ''b''), arg_size = Some 100,
          arg_request_timeout = Some 30\<rparr>],
         printed = [ConnectionTimeout ''slow'']\<rparr>)
   \<and> search_all_occurances_of_keyword_in_index sim_config (sim_engine (Some (ConnectionTimeout ''slow'')) [])
         ''orders'' ''kw'' (sim_world [''tdp_orders'']) =
       (Inr (Envelope ''Request timed out'' 408),
        \<lparr>es_state = [''tdp_orders''],
         calls = [Indices_exists ''tdp_orders'', Search
          \<lparr>arg_index = ''tdp_orders'', arg_body = None, arg_query = Some (Query_string ''kw''), arg_size = Some 100,
          arg_request_timeout = Some 30\<rparr>],
         printed = [ConnectionTimeout ''slow'']\<rparr>)
   \<and> search_all_occurances_of_text_in_index sim_config (sim_engine (Some (ConnectionTimeout ''slow'')) [])
         ''orders'' ''tx'' (sim_world [''tdp_orders'']) =
       (Inr (Envelope ''Request timed out'' 408),
        \<lparr>es_state = [''tdp_orders''],
         calls = [Indices_exists ''tdp_orders'', Search
          \<lparr>arg_index = ''tdp_orders'', arg_body = None, arg_query = Some (Query_string (''*'' @ ''tx'' @ ''*'')), arg_size = Some 100,
          arg_request_timeout = Some 30\<rparr>],
         printed = [ConnectionTimeout ''slow'']\<rparr>)
   \<and> search_record_from_index_by_given_id sim_config
         (faulty_engine (ConnectionTimeout ''slow'') False) ''orders'' ''7''
         (sim_world [''tdp_orders''])
       = (Inl (ConnectionTimeout ''slow''), \<lparr>es_state = [''tdp_orders''], calls = [Indices_exists ''tdp_orders''], printed = []\<rparr>)
   \<and> search_records_from_index_by_given_key_and_value sim_config
         (faulty_engine (ConnectionTimeout ''slow'') False) ''orders'' ''name'' ''x''
         (sim_world [''tdp_orders''])
       = (Inl (ConnectionTimeout ''slow''), \<lparr>es_state = [''tdp_orders''], calls = [Indices_exists ''tdp_orders''], printed = []\<rparr>)
   \<and> search_field_from_index_by_given_key_and_value sim_config
         (faulty_engine (ConnectionTimeout ''slow'') False) ''orders'' ''name'' ''name'' ''x''
         (sim_world [''tdp_orders''])
       = (Inl (ConnectionTimeout ''slow''), \<lparr>es_state = [''tdp_orders''], calls = [Indices_exists ''tdp_orders''], printed = []\<rparr>)
   \<and> search_records_from_index_by_time_range sim_config
         (faulty_engine (ConnectionTimeout ''slow'') False) ''orders'' ''ts'' ''a'' ''b''
         (sim_world [''tdp_orders''])
       = (Inl (ConnectionTimeout ''slow''), \<lparr>es_state = [''tdp_orders''], calls = [Indices_exists ''tdp_orders''], printed = []\<rparr>)
   \<and> search_field_from_index_by_time_range sim_config
         (faulty_engine (ConnectionTimeout ''slow'') False) ''orders'' ''ts'' ''name'' ''a'' ''b''
         (sim_world [''tdp_orders''])
       = (Inl (ConnectionTimeout ''slow''), \<lparr>es_state = [''tdp_orders''], calls = [Indices_exists ''tdp_orders''], printed = []\<rparr>)
   \<and> search_all_occurances_of_keyword_in_index sim_config
         (faulty_engine (ConnectionTimeout ''slow'') False) ''orders'' ''kw''
         (sim_world [''tdp_orders''])
       = (Inl (ConnectionTimeout ''slow''), \<lparr>es_state = [''tdp_orders''], calls = [Indices_exists ''tdp_orders''], printed = []\<rparr>)
   \<and> search_all_occurances_of_text_in_index sim_config
         (faulty_engine (ConnectionTimeout ''slow'') False) ''orders'' ''tx''
         (sim_world [''tdp_orders''])
       = (Inl (ConnectionTimeout ''slow''), \<lparr>es_state = [''tdp_orders''], calls = [Indices_exists ''tdp_orders''], printed = []\<rparr>)
   \<and> fst (search_record_from_index_by_given_id sim_config (sim_engine None [])
            ''orders'' ''7'' (sim_world [''tdp_orders'']))
       = Inr (Envelope (''No record with id='' @ ''7'' @ '' exists in index '' @ quoted ''tdp_orders'') 404)
   \<and> fst (search_records_from_index_by_given_key_and_value sim_config (sim_engine None [])
            ''orders'' ''name'' ''x'' (sim_world [''tdp_orders'']))
       = Inr (Envelope (''No record with key='' @ quoted ''name'' @ '' and value='' @ quoted ''x''
                 @ '' exists in index '' @ quoted ''tdp_orders'') 404)
   \<and> fst (search_field_from_index_by_given_key_and_value sim_config (sim_engine None [])
            ''orders'' ''name'' ''name'' ''x'' (sim_world [''tdp_orders'']))
       = Inr (Envelope (''No record with key='' @ quoted ''name'' @ '' and value='' @ quoted ''x''
                 @ '' exists in index '' @ quoted ''tdp_orders'') 404)
   \<and> fst (search_records_from_index_by_time_range sim_config (sim_engine None [])
            ''orders'' ''ts'' ''a'' ''b'' (sim_world [''tdp_orders'']))
       = Inr (Envelope (''No record in given time-range exists in index '' @ quoted ''tdp_orders'') 404)
   \<and> fst (search_field_from_index_by_time_range sim_config (sim_engine None [])
            ''orders'' ''ts'' ''name'' ''a'' ''b'' (sim_world [''tdp_orders'']))
       = Inr (Envelope (''No record in given time-range exists in index '' @ quoted ''tdp_orders'') 404)
   \<and> fst (search_all_occurances_of_keyword_in_index sim_config (sim_engine None [])
            ''orders'' ''kw'' (sim_world [''tdp_orders'']))
       = Inr (Envelope (''No record in given time-range exists in index '' @ quoted ''tdp_orders'') 404)
   \<and> fst (search_all_occurances_of_text_in_index sim_config (sim_engine None [])
            ''orders'' ''tx'' (sim_world [''tdp_orders'']))
       = Inr (Envelope (''No record in given time-range exists in index '' @ quoted ''tdp_orders'') 404)
   \<and> fst (search_record_from_index_by_given_id sim_config (sim_engine None [])
            ''orders'' ''7'' (sim_world []))
       = Inr (Envelope (index_missing_message ''tdp_orders'') 404)
   \<and> fst (search_records_from_index_by_given_key_and_value sim_config (sim_engine None [])
            ''orders'' ''name'' ''x'' (sim_world []))
       = Inr (Envelope (index_missing_message ''tdp_orders'') 404)
   \<and> fst (search_field_from_index_by_given_key_and_value sim_config (sim_engine None [])
            ''orders'' ''name'' ''name'' ''x'' (sim_world []))
       = Inr (Envelope (index_missing_message ''tdp_orders'') 404)
   \<and> fst (search_records_from_index_by_time_range sim_config (sim_engine None [])
            ''orders'' ''ts'' ''a'' ''b'' (sim_world []))
       = Inr (Envelope (index_missing_message ''tdp_orders'') 404)
   \<and> fst (search_field_from_index_by_time_range sim_config (sim_engine None [])
            ''orders'' ''ts'' ''name'' ''a'' ''b'' (sim_world []))
       = Inr (Envelope (index_missing_message ''tdp_orders'') 404)
   \<and> fst (search_all_occurances_of_keyword_in_index sim_config (sim_engine None [])
            ''orders'' ''kw'' (sim_world []))
       = Inr (Envelope (index_missing_message ''tdp_orders'') 404)
   \<and> fst (search_all_occurances_of_text_in_index sim_config (sim_engine None [])
            ''orders'' ''tx'' (sim_world []))
       = Inr (Envelope (index_missing_message ''tdp_orders'') 404)"
proof -
  have caught: "search_record_from_index_by_given_id sim_config (sim_engine (Some (ConnectionTimeout ''slow'')) [])
         ''orders'' ''7'' (sim_world [''tdp_orders'']) =
       (Inr (Envelope ''Request timed out'' 408),
        \<lparr>es_state = [''tdp_orders''],
         calls = [Indices_exists ''tdp_orders'', Search
          \<lparr>arg_index = ''tdp_orders'', arg_body = Some (Match ''_id'' ''7''), arg_query = None, arg_size = None,
          arg_request_timeout = Some 30\<rparr>],
         printed = [ConnectionTimeout ''slow'']\<rparr>)
   \<and> search_records_from_index_by_given_key_and_value sim_config (sim_engine (Some (ConnectionTimeout ''slow'')) [])
         ''orders'' ''name'' ''x'' (sim_world [''tdp_orders'']) =
       (Inr (Envelope ''Request timed out'' 408),
        \<lparr>es_state = [''tdp_orders''],
         calls = [Indices_exists ''tdp_orders'', Search
          \<lparr>arg_index = ''tdp_orders'', arg_body = None, arg_query = Some (Match ''name'' ''x''), arg_size = Some 100,
          arg_request_timeout = Some 30\<rparr>],
         printed = [ConnectionTimeout ''slow'']\<rparr>)
   \<and> search_field_from_index_by_given_key_and_value sim_config (sim_engine (Some (ConnectionTimeout ''slow'')) [])
         ''orders'' ''name'' ''name'' ''x'' (sim_world [''tdp_orders'']) =
       (Inr (Envelope ''Request timed out'' 408),
        \<lparr>es_state = [''tdp_orders''],
         calls = [Indices_exists ''tdp_orders'', Search
          \<lparr>arg_index = ''tdp_orders'', arg_body = None, arg_query = Some (Match ''name'' ''x''), arg_size = Some 100,
          arg_request_timeout = Some 30\<rparr>],
         printed = [ConnectionTimeout ''slow'']\<rparr>)
   \<and> search_records_from_index_by_time_range sim_config (sim_engine (Some (ConnectionTimeout ''slow'')) [])
         ''orders'' ''ts'' ''a'' ''b'' (sim_world [''tdp_orders'']) =
       (Inr (Envelope ''Request timed out'' 408),
        \<lparr>es_state = [''tdp_orders''],
         calls = [Indices_exists ''tdp_orders'', Search
          \<lparr>arg_index = ''tdp_orders'', arg_body = None, arg_query = Some (Range ''ts'' ''a'' ''b''), arg_size = Some 100,
          arg_request_timeout = Some 30\<rparr>],
         printed = [ConnectionTimeout ''slow'']\<rparr>)
   \<and> search_field_from_index_by_time_range sim_config (sim_engine (Some (ConnectionTimeout ''slow'')) [])
         ''orders'' ''ts'' ''name'' ''a'' ''b'' (sim_world [''tdp_orders'']) =
       (Inr (Envelope ''Request timed out'' 408),
        \<lparr>es_state = [''tdp_orders''],
         calls = [Indices_exists ''tdp_orders'', Search
          \<lparr>arg_index = ''tdp_orders'', arg_body = None, arg_query = Some (Range ''ts'' ''a'' ''b''), arg_size = Some 100,
          arg_request_timeout = Some 30\<rparr>],
         printed = [ConnectionTimeout ''slow'']\<rparr>)
   \<and> search_all_occurances_of_keyword_in_index sim_config (sim_engine (Some (ConnectionTimeout ''slow'')) [])
         ''orders'' ''kw'' (sim_world [''tdp_orders'']) =
       (Inr (Envelope ''Request timed out'' 408),
        \<lparr>es_state = [''tdp_orders''],
         calls = [Indices_exists ''tdp_orders'', Search
          \<lparr>arg_index = ''tdp_orders'', arg_body = None, arg_query = Some (Query_string ''kw''), arg_size = Some 100,
          arg_request_timeout = Some 30\<rparr>],
         printed = [ConnectionTimeout ''slow'']\<rparr>)
   \<and> search_all_occurances_of_text_in_index sim_config (sim_engine (Some (ConnectionTimeout ''slow'')) [])
         ''orders'' ''tx'' (sim_world [''tdp_orders'']) =
       (Inr (Envelope ''Request timed out'' 408),
        \<lparr>es_state = [''tdp_orders''],
         calls = [Indices_exists ''tdp_orders'', Search
          \<lparr>arg_index = ''tdp_orders'', arg_body = None, arg_query = Some (Query_string (''*'' @ ''tx'' @ ''*'')), arg_size = Some 100,
          arg_request_timeout = Some 30\<rparr>],
         printed = [ConnectionTimeout ''slow'']\<rparr>)"
    using search_timeout_is_reported [OF sim_name_allowed,
        where E = "(sim_engine (Some (ConnectionTimeout ''slow'')) [])" and w = "sim_world [''tdp_orders'']"
          and ?s1.0 = "[''tdp_orders'']" and ?s2.0 = "[''tdp_orders'']" and d = "''slow''"
          and ex = "ConnectionTimeout ''slow''"]
    by (simp add: sim_normalize_index sim_world_def sim_constants sim_engine_def)
  have escapes: "search_record_from_index_by_given_id sim_config
         (faulty_engine (ConnectionTimeout ''slow'') False) ''orders'' ''7''
         (sim_world [''tdp_orders''])
       = (Inl (ConnectionTimeout ''slow''), \<lparr>es_state = [''tdp_orders''], calls = [Indices_exists ''tdp_orders''], printed = []\<rparr>)
   \<and> search_records_from_index_by_given_key_and_value sim_config
         (faulty_engine (ConnectionTimeout ''slow'') False) ''orders'' ''name'' ''x''
         (sim_world [''tdp_orders''])
       = (Inl (ConnectionTimeout ''slow''), \<lparr>es_state = [''tdp_orders''], calls = [Indices_exists ''tdp_orders''], printed = []\<rparr>)
   \<and> search_field_from_index_by_given_key_and_value sim_config
         (faulty_engine (ConnectionTimeout ''slow'') False) ''orders'' ''name'' ''name'' ''x''
         (sim_world [''tdp_orders''])
       = (Inl (ConnectionTimeout ''slow''), \<lparr>es_state = [''tdp_orders''], calls = [Indices_exists ''tdp_orders''], printed = []\<rparr>)
   \<and> search_records_from_index_by_time_range sim_config
         (faulty_engine (ConnectionTimeout ''slow'') False) ''orders'' ''ts'' ''a'' ''b''
         (sim_world [''tdp_orders''])
       = (Inl (ConnectionTimeout ''slow''), \<lparr>es_state = [''tdp_orders''], calls = [Indices_exists ''tdp_orders''], printed = []\<rparr>)
   \<and> search_field_from_index_by_time_range sim_config
         (faulty_engine (ConnectionTimeout ''slow'') False) ''orders'' ''ts'' ''name'' ''a'' ''b''
         (sim_world [''tdp_orders''])
       = (Inl (ConnectionTimeout ''slow''), \<lparr>es_state = [''tdp_orders''], calls = [Indices_exists ''tdp_orders''], printed = []\<rparr>)
   \<and> search_all_occurances_of_keyword_in_index sim_config
         (faulty_engine (ConnectionTimeout ''slow'') False) ''orders'' ''kw''
         (sim_world [''tdp_orders''])
       = (Inl (ConnectionTimeout ''slow''), \<lparr>es_state = [''tdp_orders''], calls = [Indices_exists ''tdp_orders''], printed = []\<rparr>)
   \<and> search_all_occurances_of_text_in_index sim_config
         (faulty_engine (ConnectionTimeout ''slow'') False) ''orders'' ''tx''
         (sim_world [''tdp_orders''])
       = (Inl (ConnectionTimeout ''slow''), \<lparr>es_state = [''tdp_orders''], calls = [Indices_exists ''tdp_orders''], printed = []\<rparr>)"
    using search_timeout_is_reported [OF sim_name_allowed,
        where E = "(faulty_engine (ConnectionTimeout ''slow'') False)" and w = "sim_world [''tdp_orders'']"
          and ?s1.0 = "[''tdp_orders'']" and ?s2.0 = "[''tdp_orders'']" and d = "''slow''"
          and ex = "ConnectionTimeout ''slow''"]
    by (simp add: sim_normalize_index sim_world_def sim_constants faulty_engine_def)
  have not_found: "fst (search_record_from_index_by_given_id sim_config (sim_engine None [])
            ''orders'' ''7'' (sim_world [''tdp_orders'']))
       = Inr (Envelope (''No record with id='' @ ''7'' @ '' exists in index '' @ quoted ''tdp_orders'') 404)
   \<and> fst (search_records_from_index_by_given_key_and_value sim_config (sim_engine None [])
            ''orders'' ''name'' ''x'' (sim_world [''tdp_orders'']))
       = Inr (Envelope (''No record with key='' @ quoted ''name'' @ '' and value='' @ quoted ''x''
                 @ '' exists in index '' @ quoted ''tdp_orders'') 404)
   \<and> fst (search_field_from_index_by_given_key_and_value sim_config (sim_engine None [])
            ''orders'' ''name'' ''name'' ''x'' (sim_world [''tdp_orders'']))
       = Inr (Envelope (''No record with key='' @ quoted ''name'' @ '' and value='' @ quoted ''x''
                 @ '' exists in index '' @ quoted ''tdp_orders'') 404)
   \<and> fst (search_records_from_index_by_time_range sim_config (sim_engine None [])
            ''orders'' ''ts'' ''a'' ''b'' (sim_world [''tdp_orders'']))
       = Inr (Envelope (''No record in given time-range exists in index '' @ quoted ''tdp_orders'') 404)
   \<and> fst (search_field_from_index_by_time_range sim_config (sim_engine None [])
            ''orders'' ''ts'' ''name'' ''a'' ''b'' (sim_world [''tdp_orders'']))
       = Inr (Envelope (''No record in given time-range exists in index '' @ quoted ''tdp_orders'') 404)
   \<and> fst (search_all_occurances_of_keyword_in_index sim_config (sim_engine None [])
            ''orders'' ''kw'' (sim_world [''tdp_orders'']))
       = Inr (Envelope (''No record in given time-range exists in index '' @ quoted ''tdp_orders'') 404)
   \<and> fst (search_all_occurances_of_text_in_index sim_config (sim_engine None [])
            ''orders'' ''tx'' (sim_world [''tdp_orders'']))
       = Inr (Envelope (''No record in given time-range exists in index '' @ quoted ''tdp_orders'') 404)"
    using search_timeout_is_reported [OF sim_name_allowed,
        where E = "sim_engine None []" and w = "sim_world [''tdp_orders'']"
          and ?s1.0 = "[''tdp_orders'']" and ?s2.0 = "[''tdp_orders'']" and d = "''slow''"
          and ex = "ConnectionTimeout ''slow''"]
    by (simp add: sim_normalize_index sim_world_def sim_constants sim_engine_def status_defs)
  have missing: "fst (search_record_from_index_by_given_id sim_config (sim_engine None [])
            ''orders'' ''7'' (sim_world []))
       = Inr (Envelope (index_missing_message ''tdp_orders'') 404)
   \<and> fst (search_records_from_index_by_given_key_and_value sim_config (sim_engine None [])
            ''orders'' ''name'' ''x'' (sim_world []))
       = Inr (Envelope (index_missing_message ''tdp_orders'') 404)
   \<and> fst (search_field_from_index_by_given_key_and_value sim_config (sim_engine None [])
            ''orders'' ''name'' ''name'' ''x'' (sim_world []))
       = Inr (Envelope (index_missing_message ''tdp_orders'') 404)
   \<and> fst (search_records_from_index_by_time_range sim_config (sim_engine None [])
            ''orders'' ''ts'' ''a'' ''b'' (sim_world []))
       = Inr (Envelope (index_missing_message ''tdp_orders'') 404)
   \<and> fst (search_field_from_index_by_time_range sim_config (sim_engine None [])
            ''orders'' ''ts'' ''name'' ''a'' ''b'' (sim_world []))
       = Inr (Envelope (index_missing_message ''tdp_orders'') 404)
   \<and> fst (search_all_occurances_of_keyword_in_index sim_config (sim_engine None [])
            ''orders'' ''kw'' (sim_world []))
       = Inr (Envelope (index_missing_message ''tdp_orders'') 404)
   \<and> fst (search_all_occurances_of_text_in_index sim_config (sim_engine None [])
            ''orders'' ''tx'' (sim_world []))
       = Inr (Envelope (index_missing_message ''tdp_orders'') 404)"
    using search_timeout_is_reported [OF sim_name_allowed,
        where E = "sim_engine None []" and w = "sim_world []"
          and ?s1.0 = "[]" and ?s2.0 = "[]" and d = "''slow''"
          and ex = "ConnectionTimeout ''slow''"]
    by (simp add: sim_normalize_index sim_world_def sim_constants sim_engine_def status_defs)
  show ?thesis
    using sim_name_allowed caught escapes not_found missing by simp
qed

section \<open>The arguments of the search calls\<close>

text \<open>
  Claim C2, as stated, fails for the search by id: it passes \<^verbatim>\<open>body\<close> and
  \<^verbatim>\<open>request_timeout\<close> and no \<^verbatim>\<open>size\<close>. On the simulated engine the search call it
  issues has no size argument.
\<close>

theorem search_by_id_passes_no_size_counterexample:
  "calls (snd (search_record_from_index_by_given_id sim_config (sim_engine None []) ''orders''
                 ''7'' (sim_world [''tdp_orders''])))
     = [Indices_exists ''tdp_orders'', Search
          \<lparr>arg_index = ''tdp_orders'', arg_body = Some (Match ''_id'' ''7''),
           arg_query = None, arg_size = None, arg_request_timeout = Some 30\<rparr>]
   \<and> arg_size \<lparr>arg_index = ''tdp_orders'', arg_body = Some (Match ''_id'' ''7''),
                arg_query = None, arg_size = None, arg_request_timeout = Some 30\<rparr>
       \<noteq> Some (RECORDS sim_config)"
  by (simp add: search_record_from_index_by_given_id_def perform_def Let_def sim_name_allowed
      sim_normalize_index sim_engine_def sim_world_def sim_constants)

text \<open>
  Claim C2, amended. On a name that passes the name check and whose index exists, every
  search operation makes exactly two calls, the existence check and one search call, whatever
  the search call returns or raises. The search call always carries
  \<^verbatim>\<open>request_timeout=REQUEST_TIMEOUT\<close>; it carries \<^verbatim>\<open>size=RECORDS\<close> in the six
  searches other than the search by id, which passes no size.
\<close>

theorem search_calls_carry_timeout_and_size:
  assumes "name_allowed cfg idx"
    and "indices_exists E (normalize_index cfg idx) (es_state w) = (Inr True, s1)"
  shows "calls (snd (search_record_from_index_by_given_id cfg E idx doc_id w)) =
       calls w @ [Indices_exists (normalize_index cfg idx), Search
         \<lparr>arg_index = (normalize_index cfg idx), arg_body = Some (Match ''_id'' doc_id), arg_query = None, arg_size = None,
          arg_request_timeout = Some (REQUEST_TIMEOUT cfg)\<rparr>]
   \<and> calls (snd (search_records_from_index_by_given_key_and_value cfg E idx key val w)) =
       calls w @ [Indices_exists (normalize_index cfg idx), Search
         \<lparr>arg_index = (normalize_index cfg idx), arg_body = None, arg_query = Some (Match key val), arg_size = Some (RECORDS cfg),
          arg_request_timeout = Some (REQUEST_TIMEOUT cfg)\<rparr>]
   \<and> calls (snd (search_field_from_index_by_given_key_and_value cfg E idx field key val w)) =
       calls w @ [Indices_exists (normalize_index cfg idx), Search
         \<lparr>arg_index = (normalize_index cfg idx), arg_body = None, arg_query = Some (Match key val), arg_size = Some (RECORDS cfg),
          arg_request_timeout = Some (REQUEST_TIMEOUT cfg)\<rparr>]
   \<and> calls (snd (search_records_from_index_by_time_range cfg E idx date_field start end w)) =
       calls w @ [Indices_exists (normalize_index cfg idx), Search
         \<lparr>arg_index = (normalize_index cfg idx), arg_body = None, arg_query = Some (Range date_field start end), arg_size = Some (RECORDS cfg),
          arg_request_timeout = Some (REQUEST_TIMEOUT cfg)\<rparr>]
   \<and> calls (snd (search_field_from_index_by_time_range cfg E idx date_field field start end w)) =
       calls w @ [Indices_exists (normalize_index cfg idx), Search
         \<lparr>arg_index = (normalize_index cfg idx), arg_body = None, arg_query = Some (Range date_field start end), arg_size = Some (RECORDS cfg),
          arg_request_timeout = Some (REQUEST_TIMEOUT cfg)\<rparr>]
   \<and> calls (snd (search_all_occurances_of_keyword_in_index cfg E idx keyword w)) =
       calls w @ [Indices_exists (normalize_index cfg idx), Search
         \<lparr>arg_index = (normalize_index cfg idx), arg_body = None, arg_query = Some (Query_string keyword), arg_size = Some (RECORDS cfg),
          arg_request_timeout = Some (REQUEST_TIMEOUT cfg)\<rparr>]
   \<and> calls (snd (search_all_occurances_of_text_in_index cfg E idx text w)) =
       calls w @ [Indices_exists (normalize_index cfg idx), Search
         \<lparr>arg_index = (normalize_index cfg idx), arg_body = None, arg_query = Some (Query_string (''*'' @ text @ ''*'')), arg_size = Some (RECORDS cfg),
          arg_request_timeout = Some (REQUEST_TIMEOUT cfg)\<rparr>]"
  using assms
  by (intro conjI)
    (simp_all add: search_defs perform_def log_error_def Let_def
      split: prod.splits sum.splits exn.splits list.splits)

theorem search_calls_carry_timeout_and_size_witness:
  "name_allowed sim_config ''orders''
   \<and> calls (snd (search_record_from_index_by_given_id sim_config
                   (sim_engine None [\<lparr>hit_id = ''7'', hit_source = [(''name'', 5)]\<rparr>])
                   ''orders'' ''7'' (sim_world [''tdp_orders'']))) =
       [Indices_exists ''tdp_orders'', Search
         \<lparr>arg_index = ''tdp_orders'', arg_body = Some (Match ''_id'' ''7''), arg_query = None, arg_size = None,
          arg_request_timeout = Some 30\<rparr>]
   \<and> calls (snd (search_records_from_index_by_given_key_and_value sim_config
                   (sim_engine None [\<lparr>hit_id = ''7'', hit_source = [(''name'', 5)]\<rparr>])
                   ''orders'' ''name'' ''x'' (sim_world [''tdp_orders'']))) =
       [Indices_exists ''tdp_orders'', Search
         \<lparr>arg_index = ''tdp_orders'', arg_body = None, arg_query = Some (Match ''name'' ''x''), arg_size = Some 100,
          arg_request_timeout = Some 30\<rparr>]
   \<and> calls (snd (search_field_from_index_by_given_key_and_value sim_config
                   (sim_engine None [\<lparr>hit_id = ''7'', hit_source = [(''name'', 5)]\<rparr>])
                   ''orders'' ''name'' ''name'' ''x'' (sim_world [''tdp_orders'']))) =
       [Indices_exists ''tdp_orders'', Search
         \<lparr>arg_index = ''tdp_orders'', arg_body = None, arg_query = Some (Match ''name'' ''x''), arg_size = Some 100,
          arg_request_timeout = Some 30\<rparr>]
   \<and> calls (snd (search_records_from_index_by_time_range sim_config
                   (sim_engine None [\<lparr>hit_id = ''7'', hit_source = [(''name'', 5)]\<rparr>])
                   ''orders'' ''ts'' ''a'' ''b'' (sim_world [''tdp_orders'']))) =
       [Indices_exists ''tdp_orders'', Search
         \<lparr>arg_index = ''tdp_orders'', arg_body = None, arg_query = Some (Range ''ts'' ''a'' ''b''), arg_size = Some 100,
          arg_request_timeout = Some 30\<rparr>]
   \<and> calls (snd (search_field_from_index_by_time_range sim_config
                   (sim_engine None [\<lparr>hit_id = ''7'', hit_source = [(''name'', 5)]\<rparr>])
                   ''orders'' ''ts'' ''name'' ''a'' ''b'' (sim_world [''tdp_orders'']))) =
       [Indices_exists ''tdp_orders'', Search
         \<lparr>arg_index = ''tdp_orders'', arg_body = None, arg_query = Some (Range ''ts'' ''a'' ''b''), arg_size = Some 100,
          arg_request_timeout = Some 30\<rparr>]
   \<and> calls (snd (search_all_occurances_of_keyword_in_index sim_config
                   (sim_engine None [\<lparr>hit_id = ''7'', hit_source = [(''name'', 5)]\<rparr>])
                   ''orders'' ''kw'' (sim_world [''tdp_orders'']))) =
       [Indices_exists ''tdp_orders'', Search
         \<lparr>arg_index = ''tdp_orders'', arg_body = None, arg_query = Some (Query_string ''kw''), arg_size = Some 100,
          arg_request_timeout = Some 30\<rparr>]
   \<and> calls (snd (search_all_occurances_of_text_in_index sim_config
                   (sim_engine None [\<lparr>hit_id = ''7'', hit_source = [(''name'', 5)]\<rparr>])
                   ''orders'' ''tx'' (sim_world [''tdp_orders'']))) =
       [Indices_exists ''tdp_orders'', Search
         \<lparr>arg_index = ''tdp_orders'', arg_body = None, arg_query = Some (Query_string (''*'' @ ''tx'' @ ''*'')), arg_size = Some 100,
          arg_request_timeout = Some 30\<rparr>]"
proof -
  have h: "indices_exists (sim_engine None [\<lparr>hit_id = ''7'', hit_source = [(''name'', 5)]\<rparr>])
             (normalize_index sim_config ''orders'') (es_state (sim_world [''tdp_orders'']))
           = (Inr True, [''tdp_orders''])"
    by (simp add: sim_exists sim_normalize_index)
  show ?thesis
    using search_calls_carry_timeout_and_size [OF sim_name_allowed h]
    by (simp add: sim_name_allowed sim_normalize_index sim_world_def sim_constants)
qed

section \<open>Which handlers catch a timeout\<close>






section \<open>Names with a special character\<close>

text \<open>
  Claim C6, as stated, fails for create: its capacity check comes first. On the simulated
  engine with two indices and the limit 2, creating \<open>bad!name\<close>, which contains the
  special character \<open>!\<close>, returns the capacity envelope with status 406 and not the
  validation envelope with status 405.
\<close>

theorem create_invalid_name_at_capacity_counterexample:
  "''!'' \<in> set (SPECIAL_CHARS sim_config) \<and> sublist ''!'' ''bad!name''
   \<and> fst (create_a_single_index sim_config (sim_engine None []) ''bad!name''
            (sim_world [''tdp_a'', ''tdp_b'']))
       = Inr (Envelope (limit_message sim_config) 406)
   \<and> fst (create_a_single_index sim_config (sim_engine None []) ''bad!name''
            (sim_world [''tdp_a'', ''tdp_b'']))
       \<noteq> Inr (Envelope (special_chars_message
                           (''index '' @ quoted ''bad!name'' @ '' couldn't be created''))
                 HTTP_405_METHOD_NOT_ALLOWED)"
  by (simp add: create_a_single_index_def no_of_tdp_idx_def perform_def sim_engine_def
      sim_world_def sim_constants py_split_def py_isspace_def sublist_code status_defs)

text \<open>
  Claim C6, amended. For every index name that contains an entry of \<open>SPECIAL_CHARS\<close>:
  delete, single insert, bulk insert and each of the seven searches return the validation
  envelope with status 405 and leave the world as it was, so they make no call and raise
  nothing. Create returns the validation envelope with status 405 when its count query has
  returned fewer than \<open>MAX_IDX_LIM\<close> names, the count query being its only call.
\<close>

theorem invalid_name_is_rejected:
  assumes "c \<in> set (SPECIAL_CHARS cfg)" and "sublist c idx"
  shows "delete_a_single_index cfg E idx w =
       (Inr (Envelope (special_chars_message
                         (''index '' @ quoted idx @ '' couldn't be deleted'')) 405), w)
   \<and> insert_a_single_doc cfg E idx doc_id doc w =
       (Inr (Envelope (special_chars_message
                         (''index '' @ quoted idx @ '' couldn't index any record'')) 405), w)
   \<and> insert_multiple_docs_from_csv cfg E idx filename w =
       (Inr (Envelope (special_chars_message
                         (''index '' @ quoted idx @ '' couldn't index any record'')) 405), w)
   \<and> search_record_from_index_by_given_id cfg E idx doc_id w =
       (Inr (Envelope (search_name_message idx) 405), w)
   \<and> search_records_from_index_by_given_key_and_value cfg E idx key val w =
       (Inr (Envelope (search_name_message idx) 405), w)
   \<and> search_field_from_index_by_given_key_and_value cfg E idx field key val w =
       (Inr (Envelope (search_name_message idx) 405), w)
   \<and> search_records_from_index_by_time_range cfg E idx date_field start end w =
       (Inr (Envelope (search_name_message idx) 405), w)
   \<and> search_field_from_index_by_time_range cfg E idx date_field field start end w =
       (Inr (Envelope (search_name_message idx) 405), w)
   \<and> search_all_occurances_of_keyword_in_index cfg E idx keyword w =
       (Inr (Envelope (search_name_message idx) 405), w)
   \<and> search_all_occurances_of_text_in_index cfg E idx text w =
       (Inr (Envelope (search_name_message idx) 405), w)
   \<and> (cat_indices E (INDEX_NAME_PREFIX cfg @ ''*'') ''index'' ''index:desc'' (es_state w)
         = (Inr listing, s1)
       \<and> int (length (py_split listing)) < MAX_IDX_LIM cfg
       \<longrightarrow> create_a_single_index cfg E idx w =
           (Inr (Envelope (special_chars_message
                             (''index '' @ quoted idx @ '' couldn't be created'')) 405),
            w\<lparr>es_state := s1, calls := calls w @ [Cat_indices (INDEX_NAME_PREFIX cfg @ ''*'') ''index'' ''index:desc'']\<rparr>))"
proof -
  from assms have "\<not> name_allowed cfg idx"
    by (auto simp add: name_allowed_iff)
  then show ?thesis
    by (intro conjI impI)
      (simp_all add: delete_a_single_index_def insert_a_single_doc_def
        insert_multiple_docs_from_csv_def search_defs create_a_single_index_def
        no_of_tdp_idx_def perform_def status_defs)
qed

theorem invalid_name_is_rejected_witness:
  "''!'' \<in> set (SPECIAL_CHARS sim_config) \<and> sublist ''!'' ''bad!name''
   \<and> delete_a_single_index sim_config (sim_engine None []) ''bad!name'' (sim_world [''tdp_a'']) =
       (Inr (Envelope (special_chars_message
                         (''index '' @ quoted ''bad!name'' @ '' couldn't be deleted'')) 405),
        sim_world [''tdp_a''])
   \<and> insert_a_single_doc sim_config (sim_engine None []) ''bad!name'' ''7'' [(''name'', 1)] (sim_world [''tdp_a'']) =
       (Inr (Envelope (special_chars_message
                         (''index '' @ quoted ''bad!name'' @ '' couldn't index any record''))
               405), sim_world [''tdp_a''])
   \<and> insert_multiple_docs_from_csv sim_config (sim_engine None []) ''bad!name'' ''data.csv'' (sim_world [''tdp_a'']) =
       (Inr (Envelope (special_chars_message
                         (''index '' @ quoted ''bad!name'' @ '' couldn't index any record''))
               405), sim_world [''tdp_a''])
   \<and> search_record_from_index_by_given_id sim_config (sim_engine None []) ''bad!name''
         ''7'' (sim_world [''tdp_a'']) =
       (Inr (Envelope (search_name_message ''bad!name'') 405), sim_world [''tdp_a''])
   \<and> search_records_from_index_by_given_key_and_value sim_config (sim_engine None []) ''bad!name''
         ''name'' ''x'' (sim_world [''tdp_a'']) =
       (Inr (Envelope (search_name_message ''bad!name'') 405), sim_world [''tdp_a''])
   \<and> search_field_from_index_by_given_key_and_value sim_config (sim_engine None []) ''bad!name''
         ''name'' ''name'' ''x'' (sim_world [''tdp_a'']) =
       (Inr (Envelope (search_name_message ''bad!name'') 405), sim_world [''tdp_a''])
   \<and> search_records_from_index_by_time_range sim_config (sim_engine None []) ''bad!name''
         ''ts'' ''a'' ''b'' (sim_world [''tdp_a'']) =
       (Inr (Envelope (search_name_message ''bad!name'') 405), sim_world [''tdp_a''])
   \<and> search_field_from_index_by_time_range sim_config (sim_engine None []) ''bad!name''
         ''ts'' ''name'' ''a'' ''b'' (sim_world [''tdp_a'']) =
       (Inr (Envelope (search_name_message ''bad!name'') 405), sim_world [''tdp_a''])
   \<and> search_all_occurances_of_keyword_in_index sim_config (sim_engine None []) ''bad!name''
         ''kw'' (sim_world [''tdp_a'']) =
       (Inr (Envelope (search_name_message ''bad!name'') 405), sim_world [''tdp_a''])
   \<and> search_all_occurances_of_text_in_index sim_config (sim_engine None []) ''bad!name''
         ''tx'' (sim_world [''tdp_a'']) =
       (Inr (Envelope (search_name_message ''bad!name'') 405), sim_world [''tdp_a''])
   \<and> create_a_single_index sim_config (sim_engine None []) ''bad!name'' (sim_world [''tdp_a'']) =
       (Inr (Envelope (special_chars_message
                         (''index '' @ quoted ''bad!name'' @ '' couldn't be created'')) 405),
        \<lparr>es_state = [''tdp_a''], calls = [Cat_indices ''tdp_*'' ''index'' ''index:desc''],
         printed = []\<rparr>)"
proof -
  have h1: "''!'' \<in> set (SPECIAL_CHARS sim_config)"
    by (simp add: sim_constants)
  have h2: "sublist ''!'' ''bad!name''"
    by (simp add: sublist_code)
  have h3: "cat_indices (sim_engine None ([] :: nat hit list)) (INDEX_NAME_PREFIX sim_config @ ''*'')
              ''index'' ''index:desc'' (es_state (sim_world [''tdp_a'']))
            = (Inr (''tdp_a'' @ [CHR 0x0A]), [''tdp_a''])"
    by (simp add: sim_engine_def sim_world_def)
  have h4: "int (length (py_split (''tdp_a'' @ [CHR 0x0A]))) < MAX_IDX_LIM sim_config"
    by (simp add: py_split_def py_isspace_def sim_constants)
  show ?thesis
    using invalid_name_is_rejected [OF h1 h2, where E = "sim_engine None []"
        and w = "sim_world [''tdp_a'']" and listing = "''tdp_a'' @ [CHR 0x0A]"
        and ?s1.0 = "[''tdp_a'']"] h1 h2 h3 h4
    by (simp add: sim_world_def sim_constants)
qed

section \<open>Field projection\<close>

text \<open>
  Claim C8. For both field-projection searches, on a name that passes the name check and
  whose index exists: whenever the search call returns a list of hits that is not empty,
  the operation returns the list of \<^verbatim>\<open>.get(field)\<close> over the hits, in their order,
  after the existence check and the one search call, and nothing is raised or printed.
  That list has one entry per hit, and at every position whose hit has no entry for the
  requested field it holds \<open>None\<close>: the entry is not left out.
\<close>

theorem field_projection_keeps_missing_fields:
  assumes "name_allowed cfg idx"
    and "indices_exists E (normalize_index cfg idx) (es_state w) = (Inr True, s1)"
  shows "(search E
         \<lparr>arg_index = (normalize_index cfg idx), arg_body = None, arg_query = Some (Match key val), arg_size = Some (RECORDS cfg),
          arg_request_timeout = Some (REQUEST_TIMEOUT cfg)\<rparr> s1
         = (Inr hits, s2)
       \<and> hits \<noteq> []
       \<longrightarrow> search_field_from_index_by_given_key_and_value cfg E idx field key val w
             = (Inr (Field_values (map (\<lambda>arr. map_of (hit_source arr) field) hits)),
                w\<lparr>es_state := s2,
                  calls := calls w @ [Indices_exists (normalize_index cfg idx), Search
                    \<lparr>arg_index = (normalize_index cfg idx), arg_body = None, arg_query = Some (Match key val), arg_size = Some (RECORDS cfg),
                      arg_request_timeout = Some (REQUEST_TIMEOUT cfg)\<rparr>]\<rparr>)
         \<and> length (map (\<lambda>arr. map_of (hit_source arr) field) hits) = length hits
         \<and> (\<forall>i < length hits. map_of (hit_source (hits ! i)) field = None
               \<longrightarrow> (map (\<lambda>arr. map_of (hit_source arr) field) hits) ! i = None))
   \<and> (search E
         \<lparr>arg_index = (normalize_index cfg idx), arg_body = None, arg_query = Some (Range date_field start end), arg_size = Some (RECORDS cfg),
          arg_request_timeout = Some (REQUEST_TIMEOUT cfg)\<rparr> s1
         = (Inr hits, s2)
       \<and> hits \<noteq> []
       \<longrightarrow> search_field_from_index_by_time_range cfg E idx date_field field start end w
             = (Inr (Field_values (map (\<lambda>arr. map_of (hit_source arr) field) hits)),
                w\<lparr>es_state := s2,
                  calls := calls w @ [Indices_exists (normalize_index cfg idx), Search
                    \<lparr>arg_index = (normalize_index cfg idx), arg_body = None, arg_query = Some (Range date_field start end), arg_size = Some (RECORDS cfg),
                      arg_request_timeout = Some (REQUEST_TIMEOUT cfg)\<rparr>]\<rparr>)
         \<and> length (map (\<lambda>arr. map_of (hit_source arr) field) hits) = length hits
         \<and> (\<forall>i < length hits. map_of (hit_source (hits ! i)) field = None
               \<longrightarrow> (map (\<lambda>arr. map_of (hit_source arr) field) hits) ! i = None))"
  using assms
  by (intro conjI impI allI)
    (auto simp add: search_field_from_index_by_given_key_and_value_def
      search_field_from_index_by_time_range_def perform_def Let_def split: list.splits)

theorem field_projection_keeps_missing_fields_witness:
  "name_allowed sim_config ''orders''
   \<and> map_of (hit_source (\<lparr>hit_id = ''2'', hit_source = [(''other'', 6)]\<rparr>)) ''name'' = (None :: nat option)
   \<and> search_field_from_index_by_given_key_and_value sim_config
          (sim_engine None
           [\<lparr>hit_id = ''1'', hit_source = [(''name'', 5)]\<rparr>,
            \<lparr>hit_id = ''2'', hit_source = [(''other'', 6)]\<rparr>])
          ''orders'' ''name'' ''other'' ''x'' (sim_world [''tdp_orders''])
       = (Inr (Field_values [Some 5, None]),
          \<lparr>es_state = [''tdp_orders''],
           calls = [Indices_exists ''tdp_orders'', Search
             \<lparr>arg_index = ''tdp_orders'', arg_body = None,
              arg_query = Some (Match ''other'' ''x''), arg_size = Some 100,
              arg_request_timeout = Some 30\<rparr>],
           printed = []\<rparr>)
   \<and> search_field_from_index_by_time_range sim_config
          (sim_engine None
           [\<lparr>hit_id = ''1'', hit_source = [(''name'', 5)]\<rparr>,
            \<lparr>hit_id = ''2'', hit_source = [(''other'', 6)]\<rparr>])
          ''orders'' ''ts'' ''name'' ''a'' ''b'' (sim_world [''tdp_orders''])
       = (Inr (Field_values [Some 5, None]),
          \<lparr>es_state = [''tdp_orders''],
           calls = [Indices_exists ''tdp_orders'', Search
             \<lparr>arg_index = ''tdp_orders'', arg_body = None,
              arg_query = Some (Range ''ts'' ''a'' ''b''), arg_size = Some 100,
              arg_request_timeout = Some 30\<rparr>],
           printed = []\<rparr>)
   \<and> search_field_from_index_by_given_key_and_value sim_config
          (sim_engine None
           [\<lparr>hit_id = ''1'', hit_source = [(''name'', 5)]\<rparr>,
            \<lparr>hit_id = ''3'', hit_source = [(''name'', 8)]\<rparr>])
          ''orders'' ''name'' ''other'' ''x'' (sim_world [''tdp_orders''])
       = (Inr (Field_values [Some 5, Some 8]),
          \<lparr>es_state = [''tdp_orders''],
           calls = [Indices_exists ''tdp_orders'', Search
             \<lparr>arg_index = ''tdp_orders'', arg_body = None,
              arg_query = Some (Match ''other'' ''x''), arg_size = Some 100,
              arg_request_timeout = Some 30\<rparr>],
           printed = []\<rparr>)
   \<and> search_field_from_index_by_time_range sim_config
          (sim_engine None
           [\<lparr>hit_id = ''1'', hit_source = [(''name'', 5)]\<rparr>,
            \<lparr>hit_id = ''3'', hit_source = [(''name'', 8)]\<rparr>])
          ''orders'' ''ts'' ''name'' ''a'' ''b'' (sim_world [''tdp_orders''])
       = (Inr (Field_values [Some 5, Some 8]),
          \<lparr>es_state = [''tdp_orders''],
           calls = [Indices_exists ''tdp_orders'', Search
             \<lparr>arg_index = ''tdp_orders'', arg_body = None,
              arg_query = Some (Range ''ts'' ''a'' ''b''), arg_size = Some 100,
              arg_request_timeout = Some 30\<rparr>],
           printed = []\<rparr>)"
proof -
  have lacking_exists: "indices_exists (sim_engine None
           [\<lparr>hit_id = ''1'', hit_source = [(''name'', 5)]\<rparr>,
            \<lparr>hit_id = ''2'', hit_source = [(''other'', 6)]\<rparr>])
             (normalize_index sim_config ''orders'') (es_state (sim_world [''tdp_orders'']))
           = (Inr True, [''tdp_orders''])"
    by (simp add: sim_exists sim_normalize_index)
  have lacking: "search_field_from_index_by_given_key_and_value sim_config
          (sim_engine None
           [\<lparr>hit_id = ''1'', hit_source = [(''name'', 5)]\<rparr>,
            \<lparr>hit_id = ''2'', hit_source = [(''other'', 6)]\<rparr>])
          ''orders'' ''name'' ''other'' ''x'' (sim_world [''tdp_orders''])
       = (Inr (Field_values [Some 5, None]),
          \<lparr>es_state = [''tdp_orders''],
           calls = [Indices_exists ''tdp_orders'', Search
             \<lparr>arg_index = ''tdp_orders'', arg_body = None,
              arg_query = Some (Match ''other'' ''x''), arg_size = Some 100,
              arg_request_timeout = Some 30\<rparr>],
           printed = []\<rparr>)
   \<and> search_field_from_index_by_time_range sim_config
          (sim_engine None
           [\<lparr>hit_id = ''1'', hit_source = [(''name'', 5)]\<rparr>,
            \<lparr>hit_id = ''2'', hit_source = [(''other'', 6)]\<rparr>])
          ''orders'' ''ts'' ''name'' ''a'' ''b'' (sim_world [''tdp_orders''])
       = (Inr (Field_values [Some 5, None]),
          \<lparr>es_state = [''tdp_orders''],
           calls = [Indices_exists ''tdp_orders'', Search
             \<lparr>arg_index = ''tdp_orders'', arg_body = None,
              arg_query = Some (Range ''ts'' ''a'' ''b''), arg_size = Some 100,
              arg_request_timeout = Some 30\<rparr>],
           printed = []\<rparr>)"
    using field_projection_keeps_missing_fields [OF sim_name_allowed lacking_exists,
        where field = "''name''" and ?s2.0 = "[''tdp_orders'']"
          and hits = "[\<lparr>hit_id = ''1'', hit_source = [(''name'', 5)]\<rparr>,
            \<lparr>hit_id = ''2'', hit_source = [(''other'', 6)]\<rparr>]"]
    by (simp add: sim_normalize_index sim_world_def sim_search_hits sim_constants)
  have carrying_exists: "indices_exists (sim_engine None
           [\<lparr>hit_id = ''1'', hit_source = [(''name'', 5)]\<rparr>,
            \<lparr>hit_id = ''3'', hit_source = [(''name'', 8)]\<rparr>])
             (normalize_index sim_config ''orders'') (es_state (sim_world [''tdp_orders'']))
           = (Inr True, [''tdp_orders''])"
    by (simp add: sim_exists sim_normalize_index)
  have carrying: "search_field_from_index_by_given_key_and_value sim_config
          (sim_engine None
           [\<lparr>hit_id = ''1'', hit_source = [(''name'', 5)]\<rparr>,
            \<lparr>hit_id = ''3'', hit_source = [(''name'', 8)]\<rparr>])
          ''orders'' ''name'' ''other'' ''x'' (sim_world [''tdp_orders''])
       = (Inr (Field_values [Some 5, Some 8]),
          \<lparr>es_state = [''tdp_orders''],
           calls = [Indices_exists ''tdp_orders'', Search
             \<lparr>arg_index = ''tdp_orders'', arg_body = None,
              arg_query = Some (Match ''other'' ''x''), arg_size = Some 100,
              arg_request_timeout = Some 30\<rparr>],
           printed = []\<rparr>)
   \<and> search_field_from_index_by_time_range sim_config
          (sim_engine None
           [\<lparr>hit_id = ''1'', hit_source = [(''name'', 5)]\<rparr>,
            \<lparr>hit_id = ''3'', hit_source = [(''name'', 8)]\<rparr>])
          ''orders'' ''ts'' ''name'' ''a'' ''b'' (sim_world [''tdp_orders''])
       = (Inr (Field_values [Some 5, Some 8]),
          \<lparr>es_state = [''tdp_orders''],
           calls = [Indices_exists ''tdp_orders'', Search
             \<lparr>arg_index = ''tdp_orders'', arg_body = None,
              arg_query = Some (Range ''ts'' ''a'' ''b''), arg_size = Some 100,
              arg_request_timeout = Some 30\<rparr>],
           printed = []\<rparr>)"
    using field_projection_keeps_missing_fields [OF sim_name_allowed carrying_exists,
        where field = "''name''" and ?s2.0 = "[''tdp_orders'']"
          and hits = "[\<lparr>hit_id = ''1'', hit_source = [(''name'', 5)]\<rparr>,
            \<lparr>hit_id = ''3'', hit_source = [(''name'', 8)]\<rparr>]"]
    by (simp add: sim_normalize_index sim_world_def sim_search_hits sim_constants)
  show ?thesis
    using sim_name_allowed lacking carrying by simp
qed

section \<open>The wildcard search\<close>

text \<open>
  Claim C9. For every text, the wildcard search is the keyword search run on the text with
  \<open>*\<close> put before and after it: same result, same calls, same printing. On a name that
  passes the name check and whose index exists, the search call it issues carries the query
  string \<open>''*'' @ text @ ''*''\<close>.
\<close>

theorem text_search_wraps_in_wildcards:
  "search_all_occurances_of_text_in_index cfg E idx text w
     = search_all_occurances_of_keyword_in_index cfg E idx (''*'' @ text @ ''*'') w
   \<and> (name_allowed cfg idx
       \<and> indices_exists E (normalize_index cfg idx) (es_state w) = (Inr True, s1)
       \<longrightarrow> calls (snd (search_all_occurances_of_text_in_index cfg E idx text w)) =
           calls w @ [Indices_exists (normalize_index cfg idx), Search
             \<lparr>arg_index = (normalize_index cfg idx), arg_body = None, arg_query = Some (Query_string (''*'' @ text @ ''*'')), arg_size = Some (RECORDS cfg),
             arg_request_timeout = Some (REQUEST_TIMEOUT cfg)\<rparr>])"
  by (intro conjI impI)
    (simp_all add: search_all_occurances_of_text_in_index_def
      search_all_occurances_of_keyword_in_index_def perform_def log_error_def Let_def
      split: prod.splits sum.splits exn.splits list.splits)

theorem text_search_wraps_in_wildcards_witness:
  "name_allowed sim_config ''orders''
   \<and> search_all_occurances_of_text_in_index sim_config (sim_engine None []) ''orders'' ''ab''
         (sim_world [''tdp_orders''])
     = search_all_occurances_of_keyword_in_index sim_config (sim_engine None []) ''orders''
         ''*ab*'' (sim_world [''tdp_orders''])
   \<and> calls (snd (search_all_occurances_of_text_in_index sim_config (sim_engine None [])
                   ''orders'' ''ab'' (sim_world [''tdp_orders''])))
     = [Indices_exists ''tdp_orders'', Search
          \<lparr>arg_index = ''tdp_orders'', arg_body = None,
           arg_query = Some (Query_string ''*ab*''), arg_size = Some 100,
           arg_request_timeout = Some 30\<rparr>]"
proof -
  have h: "indices_exists (sim_engine None ([] :: nat hit list))
             (normalize_index sim_config ''orders'') (es_state (sim_world [''tdp_orders'']))
           = (Inr True, [''tdp_orders''])"
    by (simp add: sim_exists sim_normalize_index)
  note inst = text_search_wraps_in_wildcards [of sim_config "sim_engine None []" "''orders''"
      "''ab''" "sim_world [''tdp_orders'']" "[''tdp_orders'']"]
  have same: "search_all_occurances_of_text_in_index sim_config (sim_engine None []) ''orders''
         ''ab'' (sim_world [''tdp_orders''])
     = search_all_occurances_of_keyword_in_index sim_config (sim_engine None []) ''orders''
         ''*ab*'' (sim_world [''tdp_orders''])"
    using inst [THEN conjunct1] by simp
  have issued: "calls (snd (search_all_occurances_of_text_in_index sim_config
                   (sim_engine None []) ''orders'' ''ab'' (sim_world [''tdp_orders''])))
     = [Indices_exists ''tdp_orders'', Search
          \<lparr>arg_index = ''tdp_orders'', arg_body = None,
           arg_query = Some (Query_string ''*ab*''), arg_size = Some 100,
           arg_request_timeout = Some 30\<rparr>]"
    using inst [THEN conjunct2] h sim_name_allowed
    by (simp add: sim_normalize_index sim_world_def sim_constants)
  show ?thesis
    by (intro conjI sim_name_allowed same issued)
qed

section \<open>Bulk insert and the outcome of index creation\<close>

text \<open>
  Claim C10. In the bulk insert, on a name that passes the name check: when the index does
  not exist, \<open>create_a_single_index\<close> is called on the normalized name and, whatever
  envelope it returns, the function goes on to open the file and, the file opened, to
  issue the bulk call. The result is the success envelope (status 200) when the bulk call
  returns and the failure envelope (status 404) when it raises: it does not depend on the
  envelope of the creation.
\<close>

theorem bulk_insert_ignores_creation_outcome:
  assumes "name_allowed cfg idx"
    and "indices_exists E (normalize_index cfg idx) (es_state w) = (Inr False, s1)"
    and "create_a_single_index cfg E (normalize_index cfg idx)
           (w\<lparr>es_state := s1, calls := calls w @ [Indices_exists (normalize_index cfg idx)]\<rparr>)
         = (Inr envelope, w2)"
    and "open_file E filename (es_state w2) = (Inr rows, s3)"
    and "helpers_bulk E rows (normalize_index cfg idx) s3 = (r, s4)"
  shows "insert_multiple_docs_from_csv cfg E idx filename w =
     (case r of
        Inr u \<Rightarrow>
          (Inr (Envelope (''Records successfully loaded into index ''
                            @ quoted (normalize_index cfg idx)) 200),
           w2\<lparr>es_state := s4,
              calls := calls w2 @ [Open_file filename, Bulk rows (normalize_index cfg idx)]\<rparr>)
      | Inl ex \<Rightarrow>
          (Inr (Envelope (''Failed to load records into index ''
                            @ quoted (normalize_index cfg idx)) 404),
           w2\<lparr>es_state := s4,
              calls := calls w2 @ [Open_file filename, Bulk rows (normalize_index cfg idx)],
              printed := printed w2 @ [ex]\<rparr>))"
  using assms
  by (simp add: insert_multiple_docs_from_csv_def perform_def log_error_def Let_def
      split: sum.splits)

theorem bulk_insert_ignores_creation_outcome_witness:
  "create_a_single_index sim_config (sim_engine None []) ''tdp_orders''
       \<lparr>es_state = [''tdp_a'', ''tdp_b''], calls = [Indices_exists ''tdp_orders''],
        printed = []\<rparr>
     = (Inr (Envelope (limit_message sim_config) 406),
        \<lparr>es_state = [''tdp_a'', ''tdp_b''],
         calls = [Indices_exists ''tdp_orders'', Cat_indices ''tdp_*'' ''index'' ''index:desc''],
         printed = []\<rparr>)
   \<and> insert_multiple_docs_from_csv sim_config (sim_engine None []) ''orders'' ''data.csv''
       (sim_world [''tdp_a'', ''tdp_b''])
     = (Inr (Envelope (''Records successfully loaded into index '' @ quoted ''tdp_orders'') 200),
        \<lparr>es_state = [''tdp_a'', ''tdp_b'', ''tdp_orders''],
         calls = [Indices_exists ''tdp_orders'', Cat_indices ''tdp_*'' ''index'' ''index:desc'',
                  Open_file ''data.csv'', Bulk [''id,name'', ''1,a''] ''tdp_orders''],
         printed = []\<rparr>)"
proof -
  let ?E = "sim_engine None ([] :: nat hit list)"
  let ?w = "sim_world [''tdp_a'', ''tdp_b'']"
  let ?w2 = "\<lparr>es_state = [''tdp_a'', ''tdp_b''],
              calls = [Indices_exists ''tdp_orders'',
                       Cat_indices ''tdp_*'' ''index'' ''index:desc''],
              printed = []\<rparr> :: (string list, nat) world"
  have h2: "indices_exists ?E (normalize_index sim_config ''orders'') (es_state ?w)
              = (Inr False, [''tdp_a'', ''tdp_b''])"
    by (simp add: sim_exists sim_normalize_index)
  have h3: "create_a_single_index sim_config ?E (normalize_index sim_config ''orders'')
              (?w\<lparr>es_state := [''tdp_a'', ''tdp_b''],
                  calls := calls ?w @ [Indices_exists (normalize_index sim_config ''orders'')]\<rparr>)
            = (Inr (Envelope (limit_message sim_config) 406), ?w2)"
    by (simp add: create_a_single_index_def no_of_tdp_idx_def perform_def sim_engine_def
        sim_world_def sim_constants sim_normalize_index py_split_def py_isspace_def
        status_defs)
  have h4: "open_file ?E ''data.csv'' (es_state ?w2) = (Inr [''id,name'', ''1,a''], [''tdp_a'', ''tdp_b''])"
    by (simp add: sim_engine_def)
  have h5: "helpers_bulk ?E [''id,name'', ''1,a''] (normalize_index sim_config ''orders'')
              [''tdp_a'', ''tdp_b''] = (Inr (), [''tdp_a'', ''tdp_b'', ''tdp_orders''])"
    by (simp add: sim_engine_def sim_normalize_index)
  show ?thesis
    using bulk_insert_ignores_creation_outcome [OF sim_name_allowed h2 h3 h4 h5] h3
    by (simp add: sim_normalize_index sim_world_def)
qed

end
